theory Spec2Isabelle
  imports Complex_Main
begin

section \<open>Python values\<close>

text \<open>
  The tool (\<^verbatim>\<open>src/tools/ast_syntax_checker/main.py\<close>) works on the untyped trees its
  notation parser returns: dictionaries with string keys, lists, and scalars.
  A dictionary is kept as an association list in insertion order (Python dictionaries
  iterate in insertion order); a real dictionary has pairwise distinct keys.
  A character of a text is a Unicode code point below 256 (Latin-1), which is what the
  character classes below speak of; texts with other characters are not part of the
  model. A float is kept by its exact value; \<^verbatim>\<open>nan\<close> and the infinities are not part
  of the model. Python's recursion limit is not modelled either: the functions below
  follow a tree to any depth.
\<close>

datatype pyval =
    PNone
  | PBool bool
  | PInt int
  | PFloat rat
  | PStr string
  | PList "pyval list"
  | PDict "(string \<times> pyval) list"

type_synonym dict = "(string \<times> pyval) list"

text \<open>The exceptions that can be raised. A \<^verbatim>\<open>ValueError\<close> comes from the conversions
  \<^verbatim>\<open>int(s)\<close> and \<^verbatim>\<open>float(s)\<close> and from the conversion of a long integer to text; it
  is kept with its message. \<open>ValueErr e\<close> is the \<^verbatim>\<open>ValueError\<close> \<open>e\<close> among the
  exceptions of the validator and the generator.\<close>

datatype value_error = ValueError string

datatype py_error = TypeError | AttributeError | ValueErr value_error

text \<open>\<^verbatim>\<open>a == b\<close>: \<^verbatim>\<open>bool\<close>, \<^verbatim>\<open>int\<close> and \<^verbatim>\<open>float\<close> compare by value
  (\<^verbatim>\<open>True == 1 == 1.0\<close>), lists elementwise, dictionaries as sets of items.\<close>

fun py_num :: "pyval \<Rightarrow> rat option" where
  "py_num (PBool b) = Some (if b then 1 else 0)"
| "py_num (PInt i) = Some (of_int i)"
| "py_num (PFloat r) = Some r"
| "py_num _ = None"

fun py_eq :: "pyval \<Rightarrow> pyval \<Rightarrow> bool" where
  "py_eq (PStr a) w = (case w of PStr b \<Rightarrow> a = b | _ \<Rightarrow> False)"
| "py_eq PNone w = (case w of PNone \<Rightarrow> True | _ \<Rightarrow> False)"
| "py_eq (PList xs) w = (case w of PList ys \<Rightarrow> list_all2 py_eq xs ys | _ \<Rightarrow> False)"
| "py_eq (PDict xs) w = (case w of
       PDict ys \<Rightarrow> length xs = length ys \<and>
         list_all (\<lambda>(k, x). list_ex (\<lambda>(k', y). k' = k \<and> py_eq x y) ys) xs
     | _ \<Rightarrow> False)"
| "py_eq v w = (case py_num w of Some b \<Rightarrow> py_num v = Some b | None \<Rightarrow> False)"

text \<open>Lists and dictionaries are unhashable: using one as a set member or as a
  dictionary key raises \<^verbatim>\<open>TypeError\<close>.\<close>

fun py_hashable :: "pyval \<Rightarrow> bool" where
  "py_hashable (PList _) = False"
| "py_hashable (PDict _) = False"
| "py_hashable _ = True"

text \<open>Truth value of an object, as \<^verbatim>\<open>if x:\<close> tests it.\<close>

fun py_truthy :: "pyval \<Rightarrow> bool" where
  "py_truthy PNone = False"
| "py_truthy (PBool b) = b"
| "py_truthy (PInt i) = (i \<noteq> 0)"
| "py_truthy (PFloat r) = (r \<noteq> 0)"
| "py_truthy (PStr s) = (s \<noteq> [])"
| "py_truthy (PList xs) = (xs \<noteq> [])"
| "py_truthy (PDict d) = (d \<noteq> [])"

subsection \<open>Strings\<close>

text \<open>The upper-case letters among the code points below 256 and their lower-case
  forms: A to Z, and the accented capitals 0xC0 to 0xDE without the multiplication sign
  0xD7. \<^verbatim>\<open>s.lower()\<close> replaces each of them and leaves every other character.\<close>

definition upper_letters :: string where
  "upper_letters =
     ''ABCDEFGHIJKLMNOPQRSTUVWXYZ'' @
     [CHR 0xC0, CHR 0xC1, CHR 0xC2, CHR 0xC3, CHR 0xC4, CHR 0xC5, CHR 0xC6, CHR 0xC7,
      CHR 0xC8, CHR 0xC9, CHR 0xCA, CHR 0xCB, CHR 0xCC, CHR 0xCD, CHR 0xCE, CHR 0xCF,
      CHR 0xD0, CHR 0xD1, CHR 0xD2, CHR 0xD3, CHR 0xD4, CHR 0xD5, CHR 0xD6,
      CHR 0xD8, CHR 0xD9, CHR 0xDA, CHR 0xDB, CHR 0xDC, CHR 0xDD, CHR 0xDE]"

definition lower_letters :: string where
  "lower_letters =
     ''abcdefghijklmnopqrstuvwxyz'' @
     [CHR 0xE0, CHR 0xE1, CHR 0xE2, CHR 0xE3, CHR 0xE4, CHR 0xE5, CHR 0xE6, CHR 0xE7,
      CHR 0xE8, CHR 0xE9, CHR 0xEA, CHR 0xEB, CHR 0xEC, CHR 0xED, CHR 0xEE, CHR 0xEF,
      CHR 0xF0, CHR 0xF1, CHR 0xF2, CHR 0xF3, CHR 0xF4, CHR 0xF5, CHR 0xF6,
      CHR 0xF8, CHR 0xF9, CHR 0xFA, CHR 0xFB, CHR 0xFC, CHR 0xFD, CHR 0xFE]"

definition lower_char :: "char \<Rightarrow> char" where
  "lower_char c =
     (case map_of (zip upper_letters lower_letters) c of
        Some d \<Rightarrow> d
      | None \<Rightarrow> c)"

definition lower :: "string \<Rightarrow> string" where
  "lower s = map lower_char s"

text \<open>\<^verbatim>\<open>c.isdigit()\<close> holds of the decimal digits 0 to 9 and of the superscript digits
  two, three and one (0xB2, 0xB3, 0xB9); \<^verbatim>\<open>int\<close> and \<^verbatim>\<open>float\<close> read the decimal
  digits only.\<close>

definition is_decimal_char :: "char \<Rightarrow> bool" where
  "is_decimal_char c = (c \<in> set ''0123456789'')"

definition isdigit_char :: "char \<Rightarrow> bool" where
  "isdigit_char c = (is_decimal_char c \<or> c \<in> set [CHR 0xB2, CHR 0xB3, CHR 0xB9])"

text \<open>\<^verbatim>\<open>s.isdigit()\<close>: every character is a digit and there is at least one.\<close>

definition isdigit :: "string \<Rightarrow> bool" where
  "isdigit s = (s \<noteq> [] \<and> list_all isdigit_char s)"

definition digit_val :: "char \<Rightarrow> int" where
  "digit_val c =
     (case map_of (zip ''0123456789'' [0, 1, 2, 3, 4, 5, 6, 7, 8, 9]) c of
        Some d \<Rightarrow> d
      | None \<Rightarrow> 0)"

text \<open>The value of a text of decimal digits, and the decimal digits of a natural number.\<close>

definition int_of_digits :: "string \<Rightarrow> int" where
  "int_of_digits s = foldl (\<lambda>a c. 10 * a + digit_val c) 0 s"

fun digits_of :: "nat \<Rightarrow> string" where
  "digits_of n =
     (if n < 10 then [''0123456789'' ! n]
      else digits_of (n div 10) @ [''0123456789'' ! (n mod 10)])"

declare digits_of.simps [simp del]

text \<open>\<^verbatim>\<open>repr(s)\<close> for a text without quotes, backslashes and unprintable characters.\<close>

definition quoted :: "string \<Rightarrow> string" where
  "quoted s = [CHR 0x27] @ s @ [CHR 0x27]"

text \<open>
  \<^verbatim>\<open>int(s)\<close> for a text with \<^verbatim>\<open>s.isdigit()\<close>, which is how the tool calls it. The
  conversion counts the decimal digits at the start of the text and raises
  \<^verbatim>\<open>ValueError\<close> when there are more than 4300 (the interpreter's default limit on
  integer conversions, Python 3.11 and later); it raises \<^verbatim>\<open>ValueError\<close> too when a
  character of the text is not a decimal digit, as the superscript digits are not. The
  message of the second shows at most 200 characters of the quoted text.
\<close>

definition max_str_digits :: nat where
  "max_str_digits = 4300"

definition py_int :: "string \<Rightarrow> value_error + int" where
  "py_int s =
     (let digits = length (takeWhile is_decimal_char s) in
      if digits > max_str_digits
        then Inl (ValueError
               (''Exceeds the limit (4300 digits) for integer string conversion: value has '' @
                digits_of digits @
                '' digits; use sys.set_int_max_str_digits() to increase the limit''))
      else if s = [] \<or> digits < length s
        then Inl (ValueError
               (''invalid literal for int() with base 10: '' @ take 200 (quoted s)))
      else Inr (int_of_digits s))"

subsection \<open>Dictionaries\<close>

text \<open>\<^verbatim>\<open>k in d\<close>, \<^verbatim>\<open>d.get(k)\<close> (\<^verbatim>\<open>None\<close> when the key is missing),
  \<^verbatim>\<open>d.get(k, default)\<close> and \<^verbatim>\<open>d[k] = v\<close> (an existing key keeps its place,
  a new key goes last).\<close>

definition has_key :: "dict \<Rightarrow> string \<Rightarrow> bool" where
  "has_key d k = (map_of d k \<noteq> None)"

definition dict_get :: "dict \<Rightarrow> string \<Rightarrow> pyval" where
  "dict_get d k = (case map_of d k of Some v \<Rightarrow> v | None \<Rightarrow> PNone)"

definition dict_get_default :: "dict \<Rightarrow> string \<Rightarrow> pyval \<Rightarrow> pyval" where
  "dict_get_default d k dflt = (case map_of d k of Some v \<Rightarrow> v | None \<Rightarrow> dflt)"

fun dict_set :: "dict \<Rightarrow> string \<Rightarrow> pyval \<Rightarrow> dict" where
  "dict_set [] k v = [(k, v)]"
| "dict_set ((k', v') # d) k v =
     (if k' = k then (k, v) # d else (k', v') # dict_set d k v)"

text \<open>The table \<^verbatim>\<open>syntax_nodes\<close> is keyed by whatever the schema's
  \<^verbatim>\<open>node_type\<close> fields hold, so its keys are values; keys are found by \<^verbatim>\<open>==\<close>.\<close>

type_synonym nodes = "(pyval \<times> pyval) list"

fun nodes_lookup :: "nodes \<Rightarrow> pyval \<Rightarrow> pyval option" where
  "nodes_lookup [] k = None"
| "nodes_lookup ((k', v') # ns) k = (if py_eq k' k then Some v' else nodes_lookup ns k)"

definition nodes_has :: "nodes \<Rightarrow> pyval \<Rightarrow> bool" where
  "nodes_has ns k = (nodes_lookup ns k \<noteq> None)"

fun nodes_set :: "nodes \<Rightarrow> pyval \<Rightarrow> pyval \<Rightarrow> nodes" where
  "nodes_set [] k v = [(k, v)]"
| "nodes_set ((k', v') # ns) k v =
     (if py_eq k' k then (k', v) # ns else (k', v') # nodes_set ns k v)"

section \<open>Diagnostics\<close>

text \<open>
  A diagnostic is the text of an f-string. It is kept as the f-string is written: the
  literal pieces, and the values formatted into the holes. The text of a hole is
  \<^verbatim>\<open>str(v)\<close>, given by \<open>py_str\<close> for strings, integers, booleans and \<^verbatim>\<open>None\<close>.
\<close>

datatype frag = Lit string | Hole pyval

type_synonym diagnostic = "frag list"

definition str_of_int :: "int \<Rightarrow> string" where
  "str_of_int i =
     (if i < 0 then CHR ''-'' # digits_of (nat (- i)) else digits_of (nat i))"

text \<open>Formatting a value into an f-string raises \<^verbatim>\<open>ValueError\<close> when the value is, or
  holds in a list or a dictionary, an integer of more than 4300 decimal digits: the limit
  on integer conversions applies to the way from an integer to its text as well.
  \<open>formattable v\<close> says that \<open>v\<close> has no such integer.\<close>

fun formattable :: "pyval \<Rightarrow> bool" where
  "formattable (PInt i) = (length (digits_of (nat \<bar>i\<bar>)) \<le> max_str_digits)"
| "formattable (PList xs) = list_all formattable xs"
| "formattable (PDict d) = list_all (\<lambda>kv. formattable (snd kv)) d"
| "formattable _ = True"

fun py_str :: "pyval \<Rightarrow> string option" where
  "py_str (PStr s) = Some s"
| "py_str (PInt i) = (if formattable (PInt i) then Some (str_of_int i) else None)"
| "py_str (PBool b) = Some (if b then ''True'' else ''False'')"
| "py_str PNone = Some ''None''"
| "py_str _ = None"

fun render_frag :: "frag \<Rightarrow> string option" where
  "render_frag (Lit s) = Some s"
| "render_frag (Hole v) = py_str v"

definition render :: "diagnostic \<Rightarrow> string option" where
  "render d = (if list_all (\<lambda>f. render_frag f \<noteq> None) d
               then Some (concat (map (\<lambda>f. the (render_frag f)) d)) else None)"

text \<open>The evaluation of an f-string: the diagnostic, or the \<^verbatim>\<open>ValueError\<close> of a hole
  that cannot be formatted.\<close>

fun formattable_frag :: "frag \<Rightarrow> bool" where
  "formattable_frag (Lit s) = True"
| "formattable_frag (Hole v) = formattable v"

definition fstring :: "diagnostic \<Rightarrow> py_error + diagnostic" where
  "fstring d =
     (if list_all formattable_frag d then Inr d
      else Inl (ValueErr (ValueError
             (''Exceeds the limit (4300 digits) for integer string conversion; '' @
              ''use sys.set_int_max_str_digits() to increase the limit''))))"

section \<open>The notation parser\<close>

text \<open>
  \<^verbatim>\<open>_parse_ron_content\<close> and the functions it calls. The text is a list of characters and
  the parser's position \<open>i\<close> is an index into it, as in the source; \<^verbatim>\<open>content[a:b]\<close> is
  \<open>slice content a b\<close>. The operations that can raise are \<^verbatim>\<open>int(value)\<close> and
  \<^verbatim>\<open>float(value)\<close>, each with a \<^verbatim>\<open>ValueError\<close>. What the functions print is not
  part of the model.

  \<^verbatim>\<open>float(value)\<close> is called on a text of digits, dots and minus signs only. Its result
  is kept as the decimal value of the text: the rounding of that value to the nearest
  double, and its overflow to infinity, are not modelled.
\<close>

text \<open>\<^verbatim>\<open>s.strip()\<close> removes the white space of \<^verbatim>\<open>str.isspace\<close> at both ends;
  \<^verbatim>\<open>s.strip('"')\<close> removes double quotes; \<^verbatim>\<open>s.split(sep)\<close> always returns at least one piece.\<close>

definition is_space :: "char \<Rightarrow> bool" where
  "is_space c = (c \<in> set [CHR 0x09, CHR 0x0A, CHR 0x0B, CHR 0x0C, CHR 0x0D,
                            CHR 0x1C, CHR 0x1D, CHR 0x1E, CHR 0x1F, CHR '' '',
                            CHR 0x85, CHR 0xA0])"

definition strip_chars :: "(char \<Rightarrow> bool) \<Rightarrow> string \<Rightarrow> string" where
  "strip_chars P s = rev (dropWhile P (rev (dropWhile P s)))"

definition strip :: "string \<Rightarrow> string" where
  "strip s = strip_chars is_space s"

definition strip_quotes :: "string \<Rightarrow> string" where
  \<open>strip_quotes s = strip_chars (\<lambda>c. c = CHR ''"'') s\<close>

fun split_on :: "char \<Rightarrow> string \<Rightarrow> string list" where
  "split_on sep [] = [[]]"
| "split_on sep (c # cs) =
     (if c = sep then [] # split_on sep cs
      else (case split_on sep cs of
              [] \<Rightarrow> [[c]]
            | piece # pieces \<Rightarrow> (c # piece) # pieces))"

definition slice :: "string \<Rightarrow> nat \<Rightarrow> nat \<Rightarrow> string" where
  "slice s a b = take (b - a) (drop a s)"

definition isupper_char :: "char \<Rightarrow> bool" where
  "isupper_char c = (c \<in> set upper_letters)"

definition blank_char :: "char \<Rightarrow> bool" where
  "blank_char c = (c \<in> set [CHR '' '', CHR 0x09, CHR 0x0A])"

definition blank_or_comma :: "char \<Rightarrow> bool" where
  "blank_or_comma c = (c \<in> set [CHR '' '', CHR 0x09, CHR 0x0A, CHR '',''])"

text \<open>The character tests of the inner \<^verbatim>\<open>while\<close> loops, and the loops themselves: each moves
  the index forward while it is inside the text and the test holds.\<close>

definition key_char :: "char \<Rightarrow> bool" where
  "key_char c = (c \<noteq> CHR '':'')"

definition number_char :: "char \<Rightarrow> bool" where
  "number_char c = (isdigit_char c \<or> c \<in> set ''.-'')"

definition name_char :: "char \<Rightarrow> bool" where
  "name_char c = (c \<notin> set [CHR '' '', CHR 0x09, CHR 0x0A, CHR ''{''])"

definition element_char :: "char \<Rightarrow> bool" where
  "element_char c = (c \<notin> set '',]'')"

function scan :: "(char \<Rightarrow> bool) \<Rightarrow> string \<Rightarrow> nat \<Rightarrow> nat" where
  "scan P s i = (if i < length s \<and> P (s ! i) then scan P s (Suc i) else i)"
  by pat_completeness auto
termination
  by (relation "measure (\<lambda>(P, s, i). length s - i)") auto

declare scan.simps [simp del]

function scan_string :: "string \<Rightarrow> nat \<Rightarrow> nat" where
  \<open>scan_string s i =
     (if i < length s \<and> s ! i \<noteq> CHR ''"''
      then (if s ! i = CHR 0x5C then scan_string s (i + 2) else scan_string s (Suc i))
      else i)\<close>
  by pat_completeness auto
termination
  by (relation "measure (\<lambda>(s, i). length s - i)") auto

declare scan_string.simps [simp del]

function scan_parens :: "string \<Rightarrow> nat \<Rightarrow> int \<Rightarrow> nat" where
  "scan_parens s i paren_count =
     (if i < length s \<and> paren_count > 0
      then scan_parens s (Suc i)
             (if s ! i = CHR ''('' then paren_count + 1
              else if s ! i = CHR '')'' then paren_count - 1
              else paren_count)
      else i)"
  by pat_completeness auto
termination
  by (relation "measure (\<lambda>(s, i, n). length s - i)") auto

declare scan_parens.simps [simp del]

function scan_braces :: "string \<Rightarrow> nat \<Rightarrow> int \<Rightarrow> nat" where
  "scan_braces s i brace_count =
     (if i < length s \<and> brace_count > 0
      then scan_braces s (Suc i)
             (if s ! i = CHR ''{'' then brace_count + 1
              else if s ! i = CHR ''}'' then brace_count - 1
              else brace_count)
      else i)"
  by pat_completeness auto
termination
  by (relation "measure (\<lambda>(s, i, n). length s - i)") auto

declare scan_braces.simps [simp del]

function scan_value :: "string \<Rightarrow> nat \<Rightarrow> int \<Rightarrow> nat" where
  "scan_value s i brace_count =
     (if i < length s
      then (if s ! i = CHR ''{'' then scan_value s (Suc i) (brace_count + 1)
            else if s ! i = CHR ''}'' then scan_value s (Suc i) (brace_count - 1)
            else if s ! i = CHR '','' \<and> brace_count = 0 then i
            else scan_value s (Suc i) brace_count)
      else i)"
  by pat_completeness auto
termination
  by (relation "measure (\<lambda>(s, i, n). length s - i)") auto

declare scan_value.simps [simp del]

text \<open>\<^verbatim>\<open>float(s)\<close> for a text of digits, dots and minus signs: an optional sign, then
  decimal digits with at most one dot and at least one digit; \<open>None\<close> is the
  \<^verbatim>\<open>ValueError\<close>, which a superscript digit raises too.\<close>

definition py_float :: "string \<Rightarrow> rat option" where
  "py_float s =
     (let negative = (s \<noteq> [] \<and> hd s = CHR ''-'');
          body = (if negative then tl s else s);
          whole = takeWhile is_decimal_char body;
          rest = dropWhile is_decimal_char body;
          factor = (if negative then - 1 else 1)
      in case rest of
           [] \<Rightarrow> if whole = [] then None else Some (factor * of_int (int_of_digits whole))
         | c # decimals \<Rightarrow>
             if c = CHR ''.'' \<and> list_all is_decimal_char decimals \<and> (whole \<noteq> [] \<or> decimals \<noteq> [])
             then Some (factor * of_int (int_of_digits (whole @ decimals)) / 10 ^ length decimals)
             else None)"

text \<open>The branches of \<^verbatim>\<open>_parse_ron_structure\<close> that read one value at index \<open>i\<close>: each
  returns the dictionary with the pair stored and the index after the value.\<close>

definition string_value :: "string \<Rightarrow> nat \<Rightarrow> string \<Rightarrow> dict \<Rightarrow> dict \<times> nat" where
  "string_value content i key result =
     (let value_start = Suc i;
          i1 = scan_string content value_start;
          val = slice content value_start i1
      in (dict_set result key (PStr val), Suc i1))"

definition some_value ::
    "string \<Rightarrow> nat \<Rightarrow> string \<Rightarrow> dict \<Rightarrow> value_error + dict \<times> nat" where
  "some_value content i key result =
     (let i1 = i + 4 in
      if i1 < length content \<and> content ! i1 = CHR ''(''
      then (let value_start = Suc i1;
                i2 = scan_parens content value_start 1;
                value_content = slice content value_start (i2 - 1)
            in if isdigit value_content
                 then (case py_int value_content of
                         Inl e \<Rightarrow> Inl e
                       | Inr n \<Rightarrow> Inr (dict_set result key (PInt n), i2))
               else if value_content \<in> set [''true'', ''false'']
                 then Inr (dict_set result key (PBool (value_content = ''true'')), i2)
               else Inr (dict_set result key (PStr (strip_quotes value_content)), i2))
      else Inr (result, i1))"

definition number_value ::
    "string \<Rightarrow> nat \<Rightarrow> string \<Rightarrow> dict \<Rightarrow> value_error + dict \<times> nat" where
  "number_value content i key result =
     (let i1 = scan number_char content i;
          val = slice content i i1
      in if isdigit val
           then (case py_int val of
                   Inl e \<Rightarrow> Inl e
                 | Inr n \<Rightarrow> Inr (dict_set result key (PInt n), i1))
         else (case py_float val of
                 None \<Rightarrow>
                   Inl (ValueError (''could not convert string to float: '' @ quoted val))
               | Some r \<Rightarrow> Inr (dict_set result key (PFloat r), i1)))"

definition fallback_value :: "string \<Rightarrow> nat \<Rightarrow> string \<Rightarrow> dict \<Rightarrow> dict \<times> nat" where
  "fallback_value content i key result =
     (let i1 = scan_value content i 0;
          val = strip (slice content i i1)
      in (if val \<noteq> [] then dict_set result key (PStr val) else result, i1))"

definition scalar_value ::
    "string \<Rightarrow> nat \<Rightarrow> string \<Rightarrow> dict \<Rightarrow> value_error + dict \<times> nat" where
  "scalar_value content i key result =
     (if slice content i (i + 4) = ''Some'' then some_value content i key result
      else if isdigit_char (content ! i) \<or> content ! i = CHR ''-''
        then number_value content i key result
      else if slice content i (i + 4) = ''true''
        then Inr (dict_set result key (PBool True), i + 4)
      else if slice content i (i + 5) = ''false''
        then Inr (dict_set result key (PBool False), i + 5)
      else Inr (fallback_value content i key result))"

text \<open>\<^verbatim>\<open>_parse_ron_structure\<close> and \<^verbatim>\<open>_parse_ron_array\<close> with their outer loops. An array
  element that starts with an upper-case letter and has a brace body is parsed as a
  structure of its own.\<close>

function parse_ron_structure :: "string \<Rightarrow> value_error + dict"
  and structure_loop :: "string \<Rightarrow> nat \<Rightarrow> dict \<Rightarrow> value_error + dict"
  and parse_ron_array :: "string \<Rightarrow> nat \<Rightarrow> value_error + pyval list \<times> nat"
  and array_loop :: "string \<Rightarrow> nat \<Rightarrow> pyval list \<Rightarrow> value_error + pyval list \<times> nat"
  where
  "parse_ron_structure content = structure_loop content 0 []"
| \<open>structure_loop content i result =
     (if i < length content then
        (let i1 = scan blank_or_comma content i in
         if i1 \<ge> length content then Inr result
         else
           (let i2 = scan key_char content i1 in
            if i2 \<ge> length content then Inr result
            else
              (let key = strip (slice content i1 i2);
                   i3 = scan blank_char content (Suc i2)
               in if i3 < length content then
                    (case (if content ! i3 = CHR ''"''
                             then Inr (string_value content i3 key result)
                           else if content ! i3 = CHR ''[''
                             then (case parse_ron_array content i3 of
                                     Inl e \<Rightarrow> Inl e
                                   | Inr (array_content, new_i) \<Rightarrow>
                                       Inr (dict_set result key (PList array_content), new_i))
                           else scalar_value content i3 key result) of
                       Inl e \<Rightarrow> Inl e
                     | Inr (result1, i4) \<Rightarrow> structure_loop content i4 result1)
                  else structure_loop content i3 result)))
      else Inr result)\<close>
| "parse_ron_array content start_index =
     (case array_loop content (scan blank_char content (Suc start_index)) [] of
        Inl e \<Rightarrow> Inl e
      | Inr (array_content, i) \<Rightarrow>
          Inr (array_content,
               if i < length content \<and> content ! i = CHR '']'' then Suc i else i))"
| "array_loop content i array_content =
     (if i < length content \<and> content ! i \<noteq> CHR '']'' then
        (if blank_or_comma (content ! i) then array_loop content (Suc i) array_content
         else if isupper_char (content ! i) then
           (let i1 = scan name_char content i;
                i2 = scan blank_char content i1
            in if i2 < length content \<and> content ! i2 = CHR ''{'' then
                 (let i3 = scan_braces content (Suc i2) 1 in
                  case parse_ron_structure (slice content (Suc i2) (i3 - 1)) of
                    Inl e \<Rightarrow> Inl e
                  | Inr parsed_node \<Rightarrow>
                      array_loop content i3 (array_content @ [PDict parsed_node]))
               else array_loop content i2 array_content)
         else
           (let i1 = scan element_char content i;
                val = strip_quotes (strip (slice content i i1))
            in array_loop content i1
                 (if val \<noteq> [] then array_content @ [PStr val] else array_content)))
      else Inr (array_content, i))"
  by pat_completeness auto


text \<open>Every loop moves its index forward, which is why the parser terminates.\<close>

lemma scan_ge: "i \<le> scan P s i"
  by (induction P s i rule: scan.induct) (subst scan.simps, auto)

lemma scan_gt: "i < length s \<Longrightarrow> P (s ! i) \<Longrightarrow> i < scan P s i"
  using scan_ge[of "Suc i" P s] by (subst scan.simps) simp

lemma scan_string_ge: "i \<le> scan_string s i"
  by (induction s i rule: scan_string.induct) (subst scan_string.simps, auto)

lemma scan_parens_ge: "i \<le> scan_parens s i n"
  by (induction s i n rule: scan_parens.induct) (subst scan_parens.simps, auto)

lemma scan_braces_ge: "i \<le> scan_braces s i n"
  by (induction s i n rule: scan_braces.induct) (subst scan_braces.simps, auto)

lemma scan_value_ge: "i \<le> scan_value s i n"
  by (induction s i n rule: scan_value.induct) (subst scan_value.simps, auto)

lemma string_value_ge: "string_value c i key r = (r', k) \<Longrightarrow> i < k"
  using scan_string_ge[of "Suc i" c] by (auto simp: string_value_def Let_def)

lemma some_value_ge: "some_value c i key r = Inr (r', k) \<Longrightarrow> i < k"
  using scan_parens_ge[of "Suc (i + 4)" c 1]
  by (auto simp: some_value_def Let_def split: if_splits sum.splits)

lemma number_value_ge: "number_value c i key r = Inr (r', k) \<Longrightarrow> i \<le> k"
  using scan_ge[of i number_char c]
  by (auto simp: number_value_def Let_def split: if_splits option.splits sum.splits)

lemma fallback_value_ge: "fallback_value c i key r = (r', k) \<Longrightarrow> i \<le> k"
  using scan_value_ge[of i c 0] by (auto simp: fallback_value_def Let_def)

lemma scalar_value_ge: "scalar_value c i key r = Inr (r', k) \<Longrightarrow> i \<le> k"
  by (auto simp: scalar_value_def split: if_splits
        dest: some_value_ge number_value_ge fallback_value_ge)

lemma slice_shorter: "a < length s \<Longrightarrow> length (slice s (Suc a) b) < length s"
  by (simp add: slice_def)

lemma upper_is_name_char: "isupper_char c \<Longrightarrow> name_char c"
  by (auto simp: isupper_char_def upper_letters_def name_char_def)

lemma element_charI: "\<not> blank_or_comma c \<Longrightarrow> c \<noteq> CHR '']'' \<Longrightarrow> element_char c"
  by (auto simp: blank_or_comma_def element_char_def)

lemma array_progress_aux:
  "parse_ron_structure_structure_loop_parse_ron_array_array_loop_dom (Inl (Inl c)) \<Longrightarrow> True"
  "parse_ron_structure_structure_loop_parse_ron_array_array_loop_dom (Inl (Inr (c, i, r))) \<Longrightarrow> True"
  "parse_ron_structure_structure_loop_parse_ron_array_array_loop_dom (Inr (Inl (c, st))) \<Longrightarrow>
     \<forall>arr k. parse_ron_array c st = Inr (arr, k) \<longrightarrow> st < k"
  "parse_ron_structure_structure_loop_parse_ron_array_array_loop_dom (Inr (Inr (c, j, a))) \<Longrightarrow>
     \<forall>arr k. array_loop c j a = Inr (arr, k) \<longrightarrow> j \<le> k"
proof (induct rule: parse_ron_structure_structure_loop_parse_ron_array_array_loop.pinduct)
  case (1 content)
  show ?case by simp
next
  case (2 content i result)
  show ?case by simp
next
  case (3 content start_index)
  show ?case
    using "3.hyps"(2) scan_ge[of "Suc start_index" blank_char content]
    by (auto simp: parse_ron_array.psimps[OF "3.hyps"(1)]
          split: sum.splits prod.splits if_splits)
next
  case (4 content i array_content)
  note ps = array_loop.psimps[OF "4.hyps"(1)]
  let ?i1 = "scan name_char content i"
  let ?i2 = "scan blank_char content ?i1"
  let ?i3 = "scan_braces content (Suc ?i2) 1"
  let ?j1 = "scan element_char content i"
  have g1: "i \<le> ?i1" "?i1 \<le> ?i2" "Suc ?i2 \<le> ?i3" "i \<le> ?j1"
    by (rule scan_ge scan_braces_ge)+
  show ?case
  proof (intro allI impI)
    fix arr k
    assume r: "array_loop content i array_content = Inr (arr, k)"
    show "i \<le> k"
    proof (cases "i < length content \<and> content ! i \<noteq> CHR '']''")
      case False
      with r ps show ?thesis by auto
    next
      case c1: True
      show ?thesis
      proof (cases "blank_or_comma (content ! i)")
        case True
        with r ps c1 "4.hyps"(2) show ?thesis by fastforce
      next
        case c2: False
        show ?thesis
        proof (cases "isupper_char (content ! i)")
          case c3: True
          show ?thesis
          proof (cases "?i2 < length content \<and> content ! ?i2 = CHR ''{''")
            case c4: True
            from r ps c1 c2 c3 c4 obtain b where
              b: "parse_ron_structure (slice content (Suc ?i2) (?i3 - 1)) = Inr b"
              and r': "array_loop content ?i3 (array_content @ [PDict b]) = Inr (arr, k)"
              by (auto simp: Let_def split: sum.splits)
            have "?i3 \<le> k"
              using "4.hyps"(4)[OF c1 c2 c3 refl refl c4 refl b] r' by blast
            with g1 show ?thesis by linarith
          next
            case c4: False
            from r ps c1 c2 c3 c4 have
              r': "array_loop content ?i2 array_content = Inr (arr, k)"
              by (auto simp: Let_def)
            have "?i2 \<le> k"
              using "4.hyps"(5)[OF c1 c2 c3 refl refl c4] r' by blast
            with g1 show ?thesis by linarith
          qed
        next
          case c3: False
          let ?val = "strip_quotes (strip (slice content i ?j1))"
          from r ps c1 c2 c3 have
            r': "array_loop content ?j1
                   (if ?val \<noteq> [] then array_content @ [PStr ?val] else array_content) =
                 Inr (arr, k)"
            by (simp add: Let_def)
          have "?j1 \<le> k"
            using "4.hyps"(6)[OF c1 c2 c3 refl refl] r' by blast
          with g1 show ?thesis by linarith
        qed
      qed
    qed
  qed
qed

lemma value_progress:
  assumes \<open>(if c ! j = CHR ''"'' then Inr (string_value c j key r)
            else if c ! j = CHR ''[''
              then (case parse_ron_array c j of
                      Inl e \<Rightarrow> Inl e
                    | Inr (array_content, new_i) \<Rightarrow>
                        Inr (dict_set r key (PList array_content), new_i))
            else scalar_value c j key r) = Inr (r', k)\<close>
    and \<open>c ! j \<noteq> CHR ''"'' \<Longrightarrow> c ! j = CHR ''['' \<Longrightarrow>
           parse_ron_structure_structure_loop_parse_ron_array_array_loop_dom (Inr (Inl (c, j)))\<close>
  shows "j \<le> k"
proof (cases \<open>c ! j = CHR ''"''\<close>)
  case True
  with assms(1) show ?thesis by (auto dest: string_value_ge)
next
  case q: False
  show ?thesis
  proof (cases "c ! j = CHR ''[''")
    case True
    with q assms(1) obtain arr where "parse_ron_array c j = Inr (arr, k)"
      by (auto split: sum.splits)
    with array_progress_aux(3)[OF assms(2)[OF q True]] show ?thesis by fastforce
  next
    case False
    with q assms(1) show ?thesis by (auto dest: scalar_value_ge)
  qed
qed

termination parse_ron_structure
  apply (relation "inv_image (less_than <*lex*> less_than) (\<lambda>x. case x of
            Inl (Inl c) \<Rightarrow> (length c, 2 * length c + 2)
          | Inl (Inr (c, i, r)) \<Rightarrow> (length c, 2 * (length c - i) + 1)
          | Inr (Inl (c, s)) \<Rightarrow> (length c, 2 * (length c - s) + 1)
          | Inr (Inr (c, i, a)) \<Rightarrow> (length c, 2 * (length c - i)))")
  subgoal by (intro wf_inv_image wf_lex_prod wf_less_than)
  subgoal by simp
  subgoal for content i result x xa xb xc
    using scan_ge[of i blank_or_comma content] scan_ge[of x key_char content]
      scan_ge[of "Suc xa" blank_char content]
    by simp
  subgoal for content i result x xa xb xc b xd y
    using scan_ge[of i blank_or_comma content] scan_ge[of x key_char content]
      scan_ge[of "Suc xa" blank_char content]
      value_progress[of content xc xb result xd y]
    by (cases b) auto
  subgoal for content i result x xa xb xc
    using scan_ge[of i blank_or_comma content] scan_ge[of x key_char content]
      scan_ge[of "Suc xa" blank_char content]
    by simp
  subgoal for content start_index
    using scan_ge[of "Suc start_index" blank_char content] by simp
  subgoal by auto
  subgoal for content i array_content x xa xb
    using slice_shorter[of xa content "xb - 1"] by simp
  subgoal for content i array_content x xa xb b
    using scan_ge[of i name_char content] scan_ge[of x blank_char content]
      scan_braces_ge[of "Suc xa" content 1]
    by simp linarith
  subgoal for content i array_content x xa
    using scan_gt[of i content name_char] scan_ge[of x blank_char content]
    by (simp add: upper_is_name_char) linarith
  subgoal for content i array_content x xa
    using scan_gt[of i content element_char]
    by (auto simp: element_charI)
  done


declare parse_ron_structure.simps [simp del] structure_loop.simps [simp del]
  parse_ron_array.simps [simp del] array_loop.simps [simp del]

text \<open>\<^verbatim>\<open>s.find(c)\<close> and \<^verbatim>\<open>s.rfind(c)\<close> (\<open>None\<close> for -1), \<^verbatim>\<open>p in s\<close>, \<^verbatim>\<open>s.startswith(p)\<close>,
  \<^verbatim>\<open>sep.join(xs)\<close> and \<^verbatim>\<open>d.update(other)\<close>.\<close>

definition find_char :: "char \<Rightarrow> string \<Rightarrow> nat option" where
  "find_char c s =
     (if c \<in> set s then Some (length (takeWhile (\<lambda>x. x \<noteq> c) s)) else None)"

definition rfind_char :: "char \<Rightarrow> string \<Rightarrow> nat option" where
  "rfind_char c s =
     (if c \<in> set s then Some (length s - Suc (length (takeWhile (\<lambda>x. x \<noteq> c) (rev s))))
      else None)"

fun contains :: "string \<Rightarrow> string \<Rightarrow> bool" where
  "contains [] p = (p = [])"
| "contains (c # cs) p = (take (length p) (c # cs) = p \<or> contains cs p)"

definition startswith :: "string \<Rightarrow> string \<Rightarrow> bool" where
  "startswith s p = (take (length p) s = p)"

fun join :: "string \<Rightarrow> string list \<Rightarrow> string" where
  "join sep [] = []"
| "join sep [x] = x"
| "join sep (x # y # ys) = x @ sep @ join sep (y # ys)"

definition dict_update :: "dict \<Rightarrow> dict \<Rightarrow> dict" where
  "dict_update d other = fold (\<lambda>kv r. dict_set r (fst kv) (snd kv)) other d"

text \<open>\<^verbatim>\<open>str(e)\<close> for an exception: its message.\<close>

definition error_text :: "value_error \<Rightarrow> string" where
  "error_text e = (case e of ValueError message \<Rightarrow> message)"

text \<open>\<^verbatim>\<open>_parse_ron_object\<close>: any exception raised while the body between the outer braces
  is parsed is caught, and the result is then the empty dictionary.\<close>

definition parse_ron_object :: "string \<Rightarrow> dict" where
  "parse_ron_object content =
     (case (if CHR ''{'' \<notin> set content then Inr []
            else (case (find_char (CHR ''{'') content, rfind_char (CHR ''}'') content) of
                    (Some brace_start, Some brace_end) \<Rightarrow>
                      parse_ron_structure (strip (slice content (Suc brace_start) brace_end))
                  | _ \<Rightarrow> Inr [])) of
        Inl e \<Rightarrow> []
      | Inr result \<Rightarrow> result)"

text \<open>\<^verbatim>\<open>_parse_syntax_node\<close>: every property value is kept as text. None of its
  statements can raise, so its handler is never entered.\<close>

fun syntax_properties :: "string list \<Rightarrow> dict \<Rightarrow> dict" where
  "syntax_properties [] properties = properties"
| \<open>syntax_properties (prop # rest) properties =
     (let prop1 = strip prop in
      syntax_properties rest
        (if CHR '':'' \<in> set prop1
         then dict_set properties
                (strip (takeWhile (\<lambda>c. c \<noteq> CHR '':'') prop1))
                (PStr (strip_quotes (strip (tl (dropWhile (\<lambda>c. c \<noteq> CHR '':'') prop1)))))
         else properties))\<close>

definition parse_syntax_node :: "string \<Rightarrow> dict" where
  "parse_syntax_node node_line =
     (case find_char (CHR ''{'') node_line of
        None \<Rightarrow> []
      | Some name_end \<Rightarrow>
          (let node_name = strip (take name_end node_line);
               content = drop (Suc name_end) node_line;
               content1 = (case rfind_char (CHR ''}'') content of
                             Some e \<Rightarrow> take e content
                           | None \<Rightarrow> content)
           in [(node_name, PDict (syntax_properties (split_on (CHR '','') content1) []))]))"

text \<open>\<^verbatim>\<open>_parse_ron_content\<close>. \<open>syntax_lines\<close> is its loop over the lines of a syntax
  document, \<open>add_syntax_node\<close> what it does with a completed definition. The last case
  is the handler of its \<^verbatim>\<open>try\<close>.\<close>

definition add_syntax_node :: "string \<Rightarrow> dict \<Rightarrow> dict" where
  "add_syntax_node current_node result =
     (if current_node \<noteq> []
      then (let node_data = parse_syntax_node current_node in
            if node_data \<noteq> [] then dict_update result node_data else result)
      else result)"

fun syntax_lines :: "string list \<Rightarrow> string \<Rightarrow> dict \<Rightarrow> string \<times> dict" where
  "syntax_lines [] current_node result = (current_node, result)"
| "syntax_lines (line # rest) current_node result =
     (let line1 = strip line in
      if line1 \<noteq> [] \<and> CHR ''{'' \<in> set line1
        then syntax_lines rest line1 (add_syntax_node current_node result)
      else if line1 \<noteq> [] \<and> current_node \<noteq> []
        then syntax_lines rest (current_node @ '' '' @ line1) result
      else syntax_lines rest current_node result)"

definition strip_comments :: "string \<Rightarrow> string" where
  "strip_comments content =
     strip (join [CHR 0x0A]
       (filter (\<lambda>line. strip line \<noteq> [] \<and> \<not> startswith (strip line) ''#'')
          (split_on (CHR 0x0A) content)))"

definition parse_ron_content :: "string \<Rightarrow> value_error + dict" where
  "parse_ron_content text =
     (let content = strip_comments text in
      if content = [] then Inr []
      else (case (if startswith content ''RootNode'' \<or> startswith content ''Document''
                    then Inr (parse_ron_object content)
                  else if CHR ''{'' \<in> set content \<and> contains content ''node_type''
                    then (case syntax_lines (split_on (CHR 0x0A) content) [] [] of
                            (current_node, result) \<Rightarrow> Inr (add_syntax_node current_node result))
                  else Inr [(''raw_content'', PStr content)]) of
              Inl e \<Rightarrow>
                Inr [(''error'', PStr (''Could not parse RON content: '' @ error_text e)),
                     (''raw_content'', PStr content)]
            | Inr result \<Rightarrow> Inr result))"

section \<open>The schema model\<close>

text \<open>
  \<^verbatim>\<open>ASTValidator._extract_syntax_nodes\<close> and
  \<^verbatim>\<open>DisplayHintsGenerator._extract_syntax_nodes\<close> are the same code. The definitions
  are the entries of \<^verbatim>\<open>syntax['root']\<close> when the syntax document has a key
  \<^verbatim>\<open>root\<close>, of the document itself otherwise; \<^verbatim>\<open>.items()\<close> on anything but a
  dictionary raises \<^verbatim>\<open>AttributeError\<close>.
\<close>

definition get_syntax_definitions :: "dict \<Rightarrow> pyval" where
  "get_syntax_definitions syn =
     (case map_of syn ''root'' of Some r \<Rightarrow> r | None \<Rightarrow> PDict syn)"

fun extract_loop :: "dict \<Rightarrow> nodes \<Rightarrow> py_error + nodes" where
  "extract_loop [] ns = Inr ns"
| "extract_loop ((key, val) # rest) ns =
     (case val of
        PDict d \<Rightarrow>
          (case map_of d ''node_type'' of
             Some node_type \<Rightarrow>
               if py_hashable node_type
               then extract_loop rest
                      (nodes_set (nodes_set ns node_type val) (PStr (lower key)) val)
               else Inl TypeError
           | None \<Rightarrow> extract_loop rest ns)
      | _ \<Rightarrow> extract_loop rest ns)"

definition extract_syntax_nodes :: "dict \<Rightarrow> py_error + nodes" where
  "extract_syntax_nodes syn =
     (case get_syntax_definitions syn of
        PDict data \<Rightarrow> extract_loop data []
      | _ \<Rightarrow> Inl AttributeError)"

section \<open>The validator\<close>

record validator =
  syntax_data :: dict
  ast_data :: dict
  syntax_nodes :: nodes

text \<open>\<^verbatim>\<open>ASTValidator.__init__\<close>; the list \<^verbatim>\<open>self.errors\<close> is threaded through the
  functions below as their last argument and their result.\<close>

definition new_validator :: "dict \<Rightarrow> dict \<Rightarrow> py_error + validator" where
  "new_validator syn tree =
     (case extract_syntax_nodes syn of
        Inl e \<Rightarrow> Inl e
      | Inr ns \<Rightarrow> Inr \<lparr>syntax_data = syn, ast_data = tree, syntax_nodes = ns\<rparr>)"

definition common_types :: "string list" where
  "common_types =
     [''root'', ''heading'', ''paragraph'', ''text'', ''strong'', ''emphasis'',
      ''blockquote'', ''list'', ''listItem'', ''codeBlock'', ''inlineCode'',
      ''thematicBreak'', ''link'', ''image'', ''delete'']"

text \<open>\<^verbatim>\<open>x in S\<close> for a set of strings \<open>S\<close>; hashing \<open>x\<close> comes first.\<close>

definition in_str_set :: "pyval \<Rightarrow> string list \<Rightarrow> py_error + bool" where
  "in_str_set x S =
     (if py_hashable x then Inr (case x of PStr s \<Rightarrow> s \<in> set S | _ \<Rightarrow> False)
      else Inl TypeError)"

definition is_valid_node_type :: "validator \<Rightarrow> pyval \<Rightarrow> py_error + bool" where
  "is_valid_node_type v node_type =
     (case in_str_set node_type common_types of
        Inl e \<Rightarrow> Inl e
      | Inr True \<Rightarrow> Inr True
      | Inr False \<Rightarrow>
          if nodes_has (syntax_nodes v) node_type then Inr True
          else (case node_type of
                  PStr s \<Rightarrow> Inr (nodes_has (syntax_nodes v) (PStr (lower s)))
                | _ \<Rightarrow> Inl AttributeError))"

definition block_types :: "string list" where
  "block_types =
     [''heading'', ''paragraph'', ''blockquote'', ''list'', ''codeBlock'', ''thematicBreak'']"

definition inline_types :: "string list" where
  "inline_types =
     [''text'', ''strong'', ''emphasis'', ''inlineCode'', ''link'', ''image'', ''delete'']"

definition can_be_child_of :: "pyval \<Rightarrow> pyval \<Rightarrow> py_error + bool" where
  "can_be_child_of child_type parent_type =
     (if py_eq parent_type (PStr ''root'') then in_str_set child_type block_types
      else if py_eq parent_type (PStr ''paragraph'') then in_str_set child_type inline_types
      else case in_str_set parent_type [''strong'', ''emphasis''] of
        Inl e \<Rightarrow> Inl e
      | Inr True \<Rightarrow> in_str_set child_type inline_types
      | Inr False \<Rightarrow>
          if py_eq parent_type (PStr ''list'') then Inr (py_eq child_type (PStr ''listItem''))
          else if py_eq parent_type (PStr ''listItem'') then in_str_set child_type block_types
          else if py_eq parent_type (PStr ''blockquote'') then in_str_set child_type block_types
          else Inr True)"

definition frontmatter_msg :: diagnostic where
  "frontmatter_msg = [Lit ''Frontmatter node must be first child of Document'']"

definition validate_position_rules ::
    "pyval \<Rightarrow> pyval \<Rightarrow> nat \<Rightarrow> diagnostic list \<Rightarrow> py_error + diagnostic list" where
  "validate_position_rules node_type parent_type position errors =
     (case node_type of
        PStr s \<Rightarrow>
          if lower s = ''frontmatter'' \<and> position > 0
          then Inr (errors @ [frontmatter_msg]) else Inr errors
      | _ \<Rightarrow> Inl AttributeError)"

definition validate_attributes :: "pyval \<Rightarrow> dict \<Rightarrow> diagnostic list \<Rightarrow> diagnostic list" where
  "validate_attributes node_type node errors =
     (let e1 = (if py_eq node_type (PStr ''heading'') \<and> \<not> has_key node ''depth''
                then errors @ [[Lit ''Heading node missing required 'depth' attribute'']]
                else errors);
          e2 = (if py_eq node_type (PStr ''link'') \<and> \<not> has_key node ''url''
                then e1 @ [[Lit ''Link node missing required 'url' attribute'']]
                else e1)
      in if py_eq node_type (PStr ''image'')
         then (let e3 = (if \<not> has_key node ''url''
                         then e2 @ [[Lit ''Image node missing required 'url' attribute'']]
                         else e2)
               in if \<not> has_key node ''alt''
                  then e3 @ [[Lit ''Image node missing required 'alt' attribute'']]
                  else e3)
         else e2)"

text \<open>\<^verbatim>\<open>_validate_node\<close> with the loop over the children. The containment test has
  no effect on the result (its branch is \<^verbatim>\<open>pass\<close>), but it is evaluated. The two
  diagnostics that quote a value are f-strings.\<close>

definition missing_type_msg :: "dict \<Rightarrow> diagnostic" where
  "missing_type_msg node = [Lit ''Node missing 'type' field: '', Hole (PDict node)]"

definition unknown_type_msg :: "pyval \<Rightarrow> diagnostic" where
  "unknown_type_msg node_type = [Lit ''Unknown node type: '', Hole node_type]"

function validate_node ::
    "validator \<Rightarrow> dict \<Rightarrow> pyval \<Rightarrow> nat \<Rightarrow> diagnostic list \<Rightarrow> py_error + diagnostic list"
  and validate_children ::
    "validator \<Rightarrow> pyval list \<Rightarrow> pyval \<Rightarrow> nat \<Rightarrow> diagnostic list \<Rightarrow> py_error + diagnostic list"
  where
  "validate_node v node parent_type position errors =
     (case map_of node ''type'' of
        None \<Rightarrow>
          (case fstring (missing_type_msg node) of
             Inl e \<Rightarrow> Inl e
           | Inr message \<Rightarrow> Inr (errors @ [message]))
      | Some node_type \<Rightarrow>
          (case is_valid_node_type v node_type of
             Inl e \<Rightarrow> Inl e
           | Inr False \<Rightarrow>
               (case fstring (unknown_type_msg node_type) of
                  Inl e \<Rightarrow> Inl e
                | Inr message \<Rightarrow> Inr (errors @ [message]))
           | Inr True \<Rightarrow>
               (case (if py_truthy parent_type then can_be_child_of node_type parent_type
                      else Inr True) of
                  Inl e \<Rightarrow> Inl e
                | Inr _ \<Rightarrow>
                    (case validate_position_rules node_type parent_type position errors of
                       Inl e \<Rightarrow> Inl e
                     | Inr errors1 \<Rightarrow>
                         (case (case map_of node ''children'' of
                                  Some (PList children) \<Rightarrow>
                                    validate_children v children node_type 0 errors1
                                | _ \<Rightarrow> Inr errors1) of
                            Inl e \<Rightarrow> Inl e
                          | Inr errors2 \<Rightarrow>
                              Inr (validate_attributes node_type node errors2))))))"
| "validate_children v [] parent_type i errors = Inr errors"
| "validate_children v (child # rest) parent_type i errors =
     (case child of
        PDict d \<Rightarrow>
          (case validate_node v d parent_type i errors of
             Inl e \<Rightarrow> Inl e
           | Inr errors1 \<Rightarrow> validate_children v rest parent_type (Suc i) errors1)
      | _ \<Rightarrow> validate_children v rest parent_type (Suc i) errors)"
  by pat_completeness auto

lemma map_of_size: "map_of d k = Some x \<Longrightarrow> size x < size (PDict d)"
  by (induction d) (auto split: if_splits)

termination validate_node
  apply (relation "measure (\<lambda>x. case x of
            Inl (v, node, p, i, e) \<Rightarrow> size (PDict node)
          | Inr (v, cs, p, i, e) \<Rightarrow> size (PList cs))")
    apply simp
   apply (auto dest!: map_of_size)
  done

declare validate_node.simps [simp del]

text \<open>\<^verbatim>\<open>_collect_ast_nodes\<close>: every dictionary with a key \<^verbatim>\<open>type\<close>, in pre-order. The
  inner function descends into every value of a dictionary and every item of a list;
  the list \<^verbatim>\<open>nodes\<close> it appends to is the last argument.\<close>

fun collect_nodes :: "pyval \<Rightarrow> dict list \<Rightarrow> dict list"
  and collect_items :: "dict \<Rightarrow> dict list \<Rightarrow> dict list"
  and collect_list :: "pyval list \<Rightarrow> dict list \<Rightarrow> dict list"
  where
  "collect_nodes (PDict node) acc =
     collect_items node (if has_key node ''type'' then acc @ [node] else acc)"
| "collect_nodes (PList xs) acc = collect_list xs acc"
| "collect_nodes _ acc = acc"
| "collect_items [] acc = acc"
| "collect_items ((key, val) # rest) acc =
     collect_items rest
       (case val of
          PList children \<Rightarrow>
            if key = ''children'' then collect_list children acc else collect_nodes val acc
        | _ \<Rightarrow> collect_nodes val acc)"
| "collect_list [] acc = acc"
| "collect_list (child # rest) acc = collect_list rest (collect_nodes child acc)"

definition collect_ast_nodes :: "validator \<Rightarrow> dict list" where
  "collect_ast_nodes v = collect_nodes (PDict (ast_data v)) []"

text \<open>\<^verbatim>\<open>_validate_syntax_coverage\<close>. \<open>coverage_entry\<close> is the body of its loop over the
  schema entries, \<open>coerce_depth\<close> the conversion of a depth that is a text of digits:
  \<^verbatim>\<open>int\<close> is called on every text that passes \<^verbatim>\<open>isdigit\<close>, and raises on those
  it cannot convert.\<close>

definition no_heading_msg :: "string \<Rightarrow> pyval \<Rightarrow> diagnostic" where
  "no_heading_msg syntax_name required_depth =
     [Lit ''Syntax defines '', Hole (PStr syntax_name), Lit '' (heading depth '',
      Hole required_depth, Lit '') but AST has no example heading with depth '',
      Hole required_depth]"

definition no_example_msg :: "string \<Rightarrow> pyval \<Rightarrow> diagnostic" where
  "no_example_msg syntax_name node_type =
     [Lit ''Syntax defines '', Hole (PStr syntax_name), Lit '' (node_type: '',
      Hole node_type, Lit '') but AST has no example of this node type'']"

definition coerce_depth :: "pyval \<Rightarrow> py_error + pyval" where
  "coerce_depth required_depth =
     (case required_depth of
        PStr s \<Rightarrow>
          if isdigit s
          then (case py_int s of
                  Inl e \<Rightarrow> Inl (ValueErr e)
                | Inr n \<Rightarrow> Inr (PInt n))
          else Inr required_depth
      | _ \<Rightarrow> Inr required_depth)"

definition coverage_entry ::
    "dict list \<Rightarrow> string \<Rightarrow> pyval \<Rightarrow> diagnostic list \<Rightarrow> py_error + diagnostic list" where
  "coverage_entry ast_nodes syntax_name syntax_def errors =
     (case syntax_def of
        PDict d \<Rightarrow>
          (case map_of d ''node_type'' of
             None \<Rightarrow> Inr errors
           | Some node_type \<Rightarrow>
               if py_eq node_type (PStr ''heading'') \<and> has_key d ''depth''
               then (case coerce_depth (dict_get d ''depth'') of
                       Inl e \<Rightarrow> Inl e
                     | Inr required_depth \<Rightarrow>
                         (let found_depth = list_ex (\<lambda>ast_node.
                                py_eq (dict_get ast_node ''type'') (PStr ''heading'') \<and>
                                py_eq (dict_get ast_node ''depth'') required_depth) ast_nodes
                          in if \<not> found_depth
                             then (case fstring (no_heading_msg syntax_name required_depth) of
                                     Inl e \<Rightarrow> Inl e
                                   | Inr message \<Rightarrow> Inr (errors @ [message]))
                             else Inr errors))
               else (let found_type = list_ex (\<lambda>ast_node.
                             py_eq (dict_get ast_node ''type'') node_type) ast_nodes
                     in if \<not> found_type
                        then (case fstring (no_example_msg syntax_name node_type) of
                                Inl e \<Rightarrow> Inl e
                              | Inr message \<Rightarrow> Inr (errors @ [message]))
                        else Inr errors))
      | _ \<Rightarrow> Inr errors)"

fun coverage_loop ::
    "dict list \<Rightarrow> dict \<Rightarrow> diagnostic list \<Rightarrow> py_error + diagnostic list" where
  "coverage_loop ast_nodes [] errors = Inr errors"
| "coverage_loop ast_nodes ((syntax_name, syntax_def) # rest) errors =
     (case coverage_entry ast_nodes syntax_name syntax_def errors of
        Inl e \<Rightarrow> Inl e
      | Inr errors1 \<Rightarrow> coverage_loop ast_nodes rest errors1)"

definition validate_syntax_coverage ::
    "validator \<Rightarrow> diagnostic list \<Rightarrow> py_error + diagnostic list" where
  "validate_syntax_coverage v errors =
     (let ast_nodes = collect_ast_nodes v in
      case get_syntax_definitions (syntax_data v) of
        PDict syntax_definitions \<Rightarrow> coverage_loop ast_nodes syntax_definitions errors
      | _ \<Rightarrow> Inl AttributeError)"

text \<open>\<^verbatim>\<open>validate\<close>: the structural walk over the values of the top-level dictionary
  (of its entry \<^verbatim>\<open>root\<close> when there is one), then the coverage pass.\<close>

text \<open>The loop of \<^verbatim>\<open>validate\<close> over the items of the top-level dictionary. Both of its
  branches call \<^verbatim>\<open>_validate_node(value, None, 0)\<close> and both need \<open>value\<close> to be a
  dictionary, so they are one branch here.\<close>

fun validate_top :: "validator \<Rightarrow> dict \<Rightarrow> diagnostic list \<Rightarrow> py_error + diagnostic list" where
  "validate_top v [] errors = Inr errors"
| "validate_top v ((key, val) # rest) errors =
     (case val of
        PDict d \<Rightarrow>
          if has_key d ''type'' \<or> lower key = ''rootnode''
          then (case validate_node v d PNone 0 errors of
                  Inl e \<Rightarrow> Inl e
                | Inr errors1 \<Rightarrow> validate_top v rest errors1)
          else validate_top v rest errors
      | _ \<Rightarrow> validate_top v rest errors)"

definition validate :: "validator \<Rightarrow> py_error + diagnostic list" where
  "validate v =
     (let ast_root = (case map_of (ast_data v) ''root'' of
                        Some r \<Rightarrow> r
                      | None \<Rightarrow> PDict (ast_data v))
      in case (case ast_root of
                 PDict items \<Rightarrow> validate_top v items []
               | _ \<Rightarrow> Inr []) of
           Inl e \<Rightarrow> Inl e
         | Inr errors1 \<Rightarrow> validate_syntax_coverage v errors1)"

section \<open>The display hints generator\<close>

record generator =
  gen_syntax_data :: dict
  gen_ast_data :: dict
  gen_syntax_nodes :: nodes

definition new_generator :: "dict \<Rightarrow> dict \<Rightarrow> py_error + generator" where
  "new_generator syn tree =
     (case extract_syntax_nodes syn of
        Inl e \<Rightarrow> Inl e
      | Inr ns \<Rightarrow> Inr \<lparr>gen_syntax_data = syn, gen_ast_data = tree, gen_syntax_nodes = ns\<rparr>)"

text \<open>\<^verbatim>\<open>_determine_style\<close>, with its own two sets of type names.\<close>

definition style_block_types :: "string list" where
  "style_block_types =
     [''heading'', ''paragraph'', ''blockquote'', ''list'', ''listItem'',
      ''codeBlock'', ''thematicBreak'']"

definition style_inline_types :: "string list" where
  "style_inline_types =
     [''text'', ''strong'', ''emphasis'', ''inlineCode'', ''link'', ''image'', ''delete'']"

definition determine_style :: "pyval \<Rightarrow> py_error + string" where
  "determine_style node_type =
     (if py_eq node_type (PStr ''root'') then Inr ''container''
      else case in_str_set node_type style_block_types of
        Inl e \<Rightarrow> Inl e
      | Inr True \<Rightarrow> Inr ''block''
      | Inr False \<Rightarrow>
          (case in_str_set node_type style_inline_types of
             Inl e \<Rightarrow> Inl e
           | Inr True \<Rightarrow> Inr ''inline''
           | Inr False \<Rightarrow> Inr ''unknown''))"

definition display_info :: "string \<Rightarrow> string \<Rightarrow> string \<Rightarrow> dict" where
  "display_info style decoration markdown =
     [(''style'', PStr style), (''decoration'', PStr decoration),
      (''markdown_syntax'', PStr markdown)]"

definition display_map :: "(string \<times> dict) list" where
  "display_map =
     [(''root'', display_info ''container'' '''' ''''),
      (''heading'', display_info ''block'' ''#'' ''#''),
      (''paragraph'', display_info ''block'' '''' ''''),
      (''text'', display_info ''inline'' '''' ''''),
      (''strong'', display_info ''inline'' ''**'' ''**''),
      (''emphasis'', display_info ''inline'' ''*'' ''*''),
      (''blockquote'', display_info ''block'' ''>'' ''>''),
      (''list'', display_info ''block'' ''-'' ''-''),
      (''listItem'', display_info ''block'' ''-'' ''-''),
      (''codeBlock'', display_info ''block'' ''```'' ''```''),
      (''inlineCode'', display_info ''inline'' ''`'' ''`''),
      (''thematicBreak'', display_info ''block'' ''---'' ''---''),
      (''link'', display_info ''inline'' ''[]()'' ''[text](url)''),
      (''image'', display_info ''inline'' ''![]()'' ''![alt](url)''),
      (''delete'', display_info ''inline'' ''~~'' ''~~'')]"

text \<open>\<^verbatim>\<open>_get_display_info\<close>: the schema first, the built-in table second.\<close>

definition get_display_info :: "generator \<Rightarrow> pyval \<Rightarrow> py_error + dict" where
  "get_display_info g node_type =
     (if \<not> py_hashable node_type then Inl TypeError
      else case nodes_lookup (gen_syntax_nodes g) node_type of
        Some syntax_info \<Rightarrow>
          (case determine_style node_type of
             Inl e \<Rightarrow> Inl e
           | Inr style \<Rightarrow>
               (case syntax_info of
                  PDict d \<Rightarrow>
                    Inr [(''style'', PStr style),
                         (''decoration'', dict_get_default d ''markdown_syntax'' (PStr '''')),
                         (''markdown_syntax'', dict_get_default d ''markdown_syntax'' (PStr ''''))]
                | _ \<Rightarrow> Inl AttributeError))
      | None \<Rightarrow>
          Inr (case node_type of
                 PStr s \<Rightarrow>
                   (case map_of display_map s of
                      Some info \<Rightarrow> info
                    | None \<Rightarrow> display_info ''unknown'' '''' '''')
               | _ \<Rightarrow> display_info ''unknown'' '''' ''''))"

text \<open>The loop of \<^verbatim>\<open>_generate_simple_hints\<close> that copies the attributes of a node.\<close>

fun copy_attributes :: "dict \<Rightarrow> dict \<Rightarrow> dict" where
  "copy_attributes [] hints = hints"
| "copy_attributes ((key, val) # rest) hints =
     copy_attributes rest
       (if key \<noteq> ''type'' \<and> key \<noteq> ''children'' then dict_set hints (''attr_'' @ key) val
        else hints)"

text \<open>\<^verbatim>\<open>_generate_simple_hints\<close>. \<open>hints_list\<close> is its loop over a list (the children of
  a node, or a list value), \<open>hints_items\<close> its loop over a dictionary without a type;
  both keep a result only when it is true as a condition.\<close>

function generate_simple_hints :: "generator \<Rightarrow> pyval \<Rightarrow> py_error + pyval"
  and hints_list :: "generator \<Rightarrow> pyval list \<Rightarrow> pyval list \<Rightarrow> py_error + pyval list"
  and hints_items :: "generator \<Rightarrow> dict \<Rightarrow> dict \<Rightarrow> py_error + dict"
  where
  "generate_simple_hints g (PDict data) =
     (case map_of data ''type'' of
        Some node_type \<Rightarrow>
          (case get_display_info g node_type of
             Inl e \<Rightarrow> Inl e
           | Inr info \<Rightarrow>
               (let hints = copy_attributes data
                      [(''type'', node_type),
                       (''style'', dict_get_default info ''style'' (PStr ''unknown'')),
                       (''decoration'', dict_get_default info ''decoration'' (PStr '''')),
                       (''markdown_syntax'',
                          dict_get_default info ''markdown_syntax'' (PStr ''''))]
                in case map_of data ''children'' of
                     Some (PList children) \<Rightarrow>
                       (case hints_list g children [] of
                          Inl e \<Rightarrow> Inl e
                        | Inr children_hints \<Rightarrow>
                            if children_hints \<noteq> []
                            then Inr (PDict (dict_set hints ''children'' (PList children_hints)))
                            else Inr (PDict hints))
                   | _ \<Rightarrow> Inr (PDict hints)))
      | None \<Rightarrow>
          (case hints_items g data [] of
             Inl e \<Rightarrow> Inl e
           | Inr result \<Rightarrow> Inr (PDict result)))"
| "generate_simple_hints g (PList xs) =
     (case hints_list g xs [] of
        Inl e \<Rightarrow> Inl e
      | Inr result \<Rightarrow> Inr (PList result))"
| "generate_simple_hints g PNone = Inr PNone"
| "generate_simple_hints g (PBool b) = Inr (PBool b)"
| "generate_simple_hints g (PInt i) = Inr (PInt i)"
| "generate_simple_hints g (PFloat r) = Inr (PFloat r)"
| "generate_simple_hints g (PStr s) = Inr (PStr s)"
| "hints_list g [] result = Inr result"
| "hints_list g (item # rest) result =
     (case generate_simple_hints g item of
        Inl e \<Rightarrow> Inl e
      | Inr processed \<Rightarrow>
          hints_list g rest (if py_truthy processed then result @ [processed] else result))"
| "hints_items g [] result = Inr result"
| "hints_items g ((key, val) # rest) result =
     (case generate_simple_hints g val of
        Inl e \<Rightarrow> Inl e
      | Inr processed \<Rightarrow>
          hints_items g rest (if py_truthy processed then dict_set result key processed
                              else result))"
  by pat_completeness auto

termination generate_simple_hints
  apply (relation "measure (\<lambda>x. case x of
            Inl (g, d) \<Rightarrow> 2 * size d + 1
          | Inr (Inl (g, xs, r)) \<Rightarrow> 2 * size (PList xs)
          | Inr (Inr (g, items, r)) \<Rightarrow> 2 * size (PDict items))")
        apply simp
       apply (auto dest!: map_of_size)
  done

declare generate_simple_hints.simps(1) [simp del]

text \<open>\<^verbatim>\<open>generate\<close>. The result \<open>None\<close> is Python's \<^verbatim>\<open>None\<close>; an exception raised
  inside is caught and answered with \<^verbatim>\<open>None\<close> too.\<close>

fun find_root :: "dict \<Rightarrow> pyval option" where
  "find_root [] = None"
| "find_root ((key, val) # rest) =
     (if lower key \<in> set [''rootnode'', ''document'']
         \<or> (case val of PDict d \<Rightarrow> has_key d ''type'' | _ \<Rightarrow> False)
      then Some val else find_root rest)"

definition generate :: "generator \<Rightarrow> pyval option" where
  "generate g =
     (let root_node = (case find_root (gen_ast_data g) of
                         Some r \<Rightarrow> if py_truthy r then r else PDict (gen_ast_data g)
                       | None \<Rightarrow> PDict (gen_ast_data g))
      in if \<not> py_truthy root_node then None
         else case generate_simple_hints g root_node of
                Inl e \<Rightarrow> None
              | Inr hints \<Rightarrow>
                  if py_truthy hints then Some (PDict [(''display_hints'', hints)]) else None)"

section \<open>Definitions used to state the properties\<close>

text \<open>The style of a type name as the specification words it: \<^verbatim>\<open>root\<close> is a container,
  a member of the block set is a block, a member of the inline set is inline, anything
  else is unknown.\<close>

definition intrinsic_style :: "string \<Rightarrow> string" where
  "intrinsic_style t =
     (if t = ''root'' then ''container''
      else if t \<in> set style_block_types then ''block''
      else if t \<in> set style_inline_types then ''inline''
      else ''unknown'')"

text \<open>Every value stored in a schema table is a dictionary.\<close>

definition all_dicts :: "nodes \<Rightarrow> bool" where
  "all_dicts ns = list_all (\<lambda>kv. case snd kv of PDict _ \<Rightarrow> True | _ \<Rightarrow> False) ns"

text \<open>A schema entry that is a definition: a dictionary with a \<^verbatim>\<open>node_type\<close>.\<close>

definition is_definition :: "string \<times> pyval \<Rightarrow> bool" where
  "is_definition kv = (case snd kv of PDict d \<Rightarrow> has_key d ''node_type'' | _ \<Rightarrow> False)"

text \<open>The first of the two passes of \<^verbatim>\<open>validate\<close>, the structural walk, on its own: the
  diagnostics it has collected when the coverage pass starts.\<close>

definition structural_walk :: "validator \<Rightarrow> py_error + diagnostic list" where
  "structural_walk v =
     (case (case map_of (ast_data v) ''root'' of
              Some r \<Rightarrow> r
            | None \<Rightarrow> PDict (ast_data v)) of
        PDict items \<Rightarrow> validate_top v items []
      | _ \<Rightarrow> Inr [])"

subsection \<open>Example documents\<close>

definition cov_syntax_text :: string where
  \<open>cov_syntax_text =
     ''Para { node_type: "paragraph" }'' @ [CHR 0x0A] @
     ''Quote { node_type: "blockquote" }''\<close>

definition cov_ast_text :: string where
  \<open>cov_ast_text = ''RootNode { type: "root", children: [ Paragraph { type: "paragraph" } ] }''\<close>

definition cov_syntax :: dict where
  "cov_syntax =
     [(''Para'', PDict [(''node_type'', PStr ''paragraph'')]),
      (''Quote'', PDict [(''node_type'', PStr ''blockquote'')])]"

definition cov_ast :: dict where
  "cov_ast =
     [(''type'', PStr ''root''),
      (''children'', PList [PDict [(''type'', PStr ''paragraph'')]])]"

definition cov_validator :: validator where
  "cov_validator = \<lparr>syntax_data = cov_syntax, ast_data = cov_ast,
      syntax_nodes =
        [(PStr ''paragraph'', PDict [(''node_type'', PStr ''paragraph'')]),
         (PStr ''para'', PDict [(''node_type'', PStr ''paragraph'')]),
         (PStr ''blockquote'', PDict [(''node_type'', PStr ''blockquote'')]),
         (PStr ''quote'', PDict [(''node_type'', PStr ''blockquote'')])]\<rparr>"

definition e2e_syntax_text :: string where
  \<open>e2e_syntax_text = ''Heading1 { node_type: "heading", depth: 1, markdown_syntax: "#" }''\<close>

definition e2e_ast_text :: string where
  \<open>e2e_ast_text = ''RootNode { type: "heading", depth: 1, children: [] }''\<close>

definition bare_heading_text :: string where
  \<open>bare_heading_text = ''RootNode { type: "heading", children: [] }''\<close>

definition depth_syntax_text :: string where
  \<open>depth_syntax_text =
     ''Heading1 { node_type: "heading", depth: 1, markdown_syntax: "#" }'' @ [CHR 0x0A] @
     ''Heading2 { node_type: "heading", depth: 2, markdown_syntax: "#" }''\<close>

definition depth_ast_text :: string where
  \<open>depth_ast_text =
     ''RootNode { type: "root", children: [ Heading { type: "heading", depth: 1 } ] }''\<close>

definition e2e_definition :: pyval where
  "e2e_definition =
     PDict [(''node_type'', PStr ''heading''), (''depth'', PStr ''1''),
            (''markdown_syntax'', PStr ''#'')]"

definition e2e_syntax :: dict where
  "e2e_syntax = [(''Heading1'', e2e_definition)]"

definition e2e_ast :: dict where
  "e2e_ast = [(''type'', PStr ''heading''), (''depth'', PInt 1), (''children'', PList [])]"

definition e2e_nodes :: nodes where
  "e2e_nodes = [(PStr ''heading'', e2e_definition), (PStr ''heading1'', e2e_definition)]"

definition e2e_validator :: validator where
  "e2e_validator = \<lparr>syntax_data = e2e_syntax, ast_data = e2e_ast, syntax_nodes = e2e_nodes\<rparr>"

definition e2e_generator :: generator where
  "e2e_generator =
     \<lparr>gen_syntax_data = e2e_syntax, gen_ast_data = e2e_ast, gen_syntax_nodes = e2e_nodes\<rparr>"

definition e2e_hint :: pyval where
  "e2e_hint =
     PDict [(''type'', PStr ''heading''), (''style'', PStr ''block''),
            (''decoration'', PStr ''#''), (''markdown_syntax'', PStr ''#''),
            (''attr_depth'', PInt 1)]"

definition e2e_claimed_hint :: pyval where
  "e2e_claimed_hint =
     PDict [(''type'', PStr ''heading''), (''style'', PStr ''block''),
            (''decoration'', PStr ''#''), (''markdown_syntax'', PStr ''#'')]"

definition bare_syntax_text :: string where
  \<open>bare_syntax_text = ''Heading { node_type: "heading", markdown_syntax: "#" }''\<close>

definition bare_definition :: pyval where
  "bare_definition = PDict [(''node_type'', PStr ''heading''), (''markdown_syntax'', PStr ''#'')]"

definition bare_syntax :: dict where
  "bare_syntax = [(''Heading'', bare_definition)]"

definition bare_heading :: dict where
  "bare_heading = [(''type'', PStr ''heading''), (''children'', PList [])]"

definition bare_validator :: validator where
  "bare_validator =
     \<lparr>syntax_data = bare_syntax, ast_data = bare_heading,
      syntax_nodes = [(PStr ''heading'', bare_definition)]\<rparr>"

definition wrapped_validator :: validator where
  "wrapped_validator =
     \<lparr>syntax_data = bare_syntax, ast_data = [(''RootNode'', PDict bare_heading)],
      syntax_nodes = [(PStr ''heading'', bare_definition)]\<rparr>"

definition depth_definition :: "string \<Rightarrow> dict" where
  "depth_definition d =
     [(''node_type'', PStr ''heading''), (''depth'', PStr d), (''markdown_syntax'', PStr ''#'')]"

definition depth_syntax :: dict where
  "depth_syntax =
     [(''Heading1'', PDict (depth_definition ''1'')),
      (''Heading2'', PDict (depth_definition ''2''))]"

definition depth_ast :: dict where
  "depth_ast =
     [(''type'', PStr ''root''),
      (''children'', PList [PDict [(''type'', PStr ''heading''), (''depth'', PInt 1)]])]"

definition depth_validator :: validator where
  "depth_validator = \<lparr>syntax_data = depth_syntax, ast_data = depth_ast,
      syntax_nodes =
        [(PStr ''heading'', PDict (depth_definition ''2'')),
         (PStr ''heading1'', PDict (depth_definition ''1'')),
         (PStr ''heading2'', PDict (depth_definition ''2''))]\<rparr>"

text \<open>A syntax document whose heading depth is the superscript digit two.\<close>

definition superscript_syntax_text :: string where
  \<open>superscript_syntax_text =
     ''Heading2 { node_type: "heading", depth: '' @ [CHR 0xB2] @ '', markdown_syntax: "#" }''\<close>

definition superscript_syntax :: dict where
  "superscript_syntax = [(''Heading2'', PDict (depth_definition [CHR 0xB2]))]"

definition superscript_validator :: validator where
  "superscript_validator = \<lparr>syntax_data = superscript_syntax, ast_data = e2e_ast,
      syntax_nodes =
        [(PStr ''heading'', PDict (depth_definition [CHR 0xB2])),
         (PStr ''heading2'', PDict (depth_definition [CHR 0xB2]))]\<rparr>"

definition custom_syntax :: dict where
  "custom_syntax = [(''MyNode'', PDict [(''node_type'', PStr ''Custom'')])]"

definition custom_validator :: validator where
  "custom_validator = \<lparr>syntax_data = custom_syntax,
      ast_data = [(''RootNode'', PDict [(''type'', PStr ''custom'')])],
      syntax_nodes =
        [(PStr ''Custom'', PDict [(''node_type'', PStr ''Custom'')]),
         (PStr ''mynode'', PDict [(''node_type'', PStr ''Custom'')])]\<rparr>"

text \<open>A schema that registers the type frontmatter, and two documents with a frontmatter
  node: as the second child of the root and as its first.\<close>

definition fm_syntax_text :: string where
  \<open>fm_syntax_text = ''FrontMatter { node_type: "frontmatter" }''\<close>

definition fm_second_text :: string where
  \<open>fm_second_text =
     ''RootNode { type: "root", children: [ Paragraph { type: "paragraph" }, '' @
     ''FrontMatter { type: "frontmatter" } ] }''\<close>

definition fm_first_text :: string where
  \<open>fm_first_text =
     ''RootNode { type: "root", children: [ FrontMatter { type: "frontmatter" }, '' @
     ''Paragraph { type: "paragraph" } ] }''\<close>

definition fm_syntax :: dict where
  "fm_syntax = [(''FrontMatter'', PDict [(''node_type'', PStr ''frontmatter'')])]"

definition fm_node :: pyval where
  "fm_node = PDict [(''type'', PStr ''frontmatter'')]"

definition para_node :: pyval where
  "para_node = PDict [(''type'', PStr ''paragraph'')]"

definition fm_second :: dict where
  "fm_second = [(''type'', PStr ''root''), (''children'', PList [para_node, fm_node])]"

definition fm_first :: dict where
  "fm_first = [(''type'', PStr ''root''), (''children'', PList [fm_node, para_node])]"

definition fm_validator :: "dict \<Rightarrow> validator" where
  "fm_validator tree =
     \<lparr>syntax_data = fm_syntax, ast_data = tree,
      syntax_nodes = [(PStr ''frontmatter'', PDict [(''node_type'', PStr ''frontmatter'')])]\<rparr>"

text \<open>A document whose root has a heading without depth, a link without url and an image
  without url and alt.\<close>

definition attr_ast_text :: string where
  \<open>attr_ast_text =
     ''RootNode { type: "root", children: [ Heading { type: "heading" }, '' @
     ''Link { type: "link" }, Image { type: "image" } ] }''\<close>

definition attr_ast :: dict where
  "attr_ast =
     [(''type'', PStr ''root''),
      (''children'', PList [PDict [(''type'', PStr ''heading'')],
                            PDict [(''type'', PStr ''link'')],
                            PDict [(''type'', PStr ''image'')]])]"

definition attr_validator :: "dict \<Rightarrow> validator" where
  "attr_validator tree =
     \<lparr>syntax_data = bare_syntax, ast_data = tree,
      syntax_nodes = [(PStr ''heading'', bare_definition)]\<rparr>"

section \<open>The two passes of validation\<close>

lemma validate_two_passes:
  "validate v =
     (case structural_walk v of
        Inl e \<Rightarrow> Inl e
      | Inr errors1 \<Rightarrow> validate_syntax_coverage v errors1)"
  by (simp add: validate_def structural_walk_def)

section \<open>The coverage pass, entry by entry\<close>

lemma coverage_entry_append:
  "coverage_entry ns n d errs = map_sum id ((@) errs) (coverage_entry ns n d [])"
  by (simp add: coverage_entry_def Let_def split: pyval.splits option.splits sum.splits)

lemma coverage_loop_append:
  "coverage_loop ns defs errs = map_sum id ((@) errs) (coverage_loop ns defs [])"
proof (induction defs arbitrary: errs)
  case Nil
  then show ?case by simp
next
  case (Cons a defs)
  obtain n d where a: "a = (n, d)" by (cases a)
  show ?case
  proof (cases "coverage_entry ns n d []")
    case (Inl e)
    then show ?thesis
      by (simp add: a coverage_entry_append[of ns n d errs])
  next
    case (Inr e1)
    then show ?thesis
      using Cons.IH[of "errs @ e1"] Cons.IH[of e1]
      by (cases "coverage_loop ns defs []")
         (simp_all add: a coverage_entry_append[of ns n d errs])
  qed
qed

lemma coverage_loop_split:
  "coverage_loop ns (xs @ ys) errs =
     (case coverage_loop ns xs errs of
        Inl e \<Rightarrow> Inl e
      | Inr errors1 \<Rightarrow> coverage_loop ns ys errors1)"
  by (induction xs arbitrary: errs) (auto split: sum.splits)

lemma fstring_formattable: "list_all formattable_frag d \<Longrightarrow> fstring d = Inr d"
  by (simp add: fstring_def)

section \<open>The conversion of a text of digits\<close>

lemma takeWhile_all: "length (takeWhile P s) = length s \<Longrightarrow> list_all P s"
  by (induction s) (auto split: if_splits dest: length_takeWhile_le[THEN order_trans])

lemma py_int_result:
  assumes "py_int s = Inr n"
  shows "isdigit s" and "list_all is_decimal_char s" and "length s \<le> max_str_digits"
    and "n = int_of_digits s"
proof -
  let ?digits = "length (takeWhile is_decimal_char s)"
  from assms have le: "?digits \<le> max_str_digits" and ne: "s \<noteq> []"
    and all: "\<not> ?digits < length s" and n: "n = int_of_digits s"
    by (auto simp: py_int_def Let_def split: if_splits)
  have "?digits \<le> length s" by (rule length_takeWhile_le)
  with all have eq: "?digits = length s" by simp
  then show dec: "list_all is_decimal_char s" by (rule takeWhile_all)
  from dec ne show "isdigit s"
    by (auto simp: isdigit_def isdigit_char_def list_all_iff)
  from le eq show "length s \<le> max_str_digits" by simp
  from n show "n = int_of_digits s" .
qed

lemma digit_val_range: "is_decimal_char c \<Longrightarrow> 0 \<le> digit_val c \<and> digit_val c \<le> 9"
  by (auto simp: is_decimal_char_def digit_val_def)

lemma int_of_digits_snoc: "int_of_digits (s @ [c]) = 10 * int_of_digits s + digit_val c"
  by (simp add: int_of_digits_def)

lemma int_of_digits_bound:
  "list_all is_decimal_char s \<Longrightarrow> 0 \<le> int_of_digits s \<and> int_of_digits s < 10 ^ length s"
proof (induction s rule: rev_induct)
  case Nil
  then show ?case by (simp add: int_of_digits_def)
next
  case (snoc c s)
  then have IH: "0 \<le> int_of_digits s" "int_of_digits s < 10 ^ length s"
    and c: "0 \<le> digit_val c" "digit_val c \<le> 9"
    using digit_val_range[of c] by simp_all
  from IH(2) have "int_of_digits s + 1 \<le> 10 ^ length s" by simp
  then have "10 * (int_of_digits s + 1) \<le> 10 * 10 ^ length s" by simp
  with IH(1) c show ?case by (simp add: int_of_digits_snoc)
qed

lemma digits_of_length: "n < 10 ^ m \<Longrightarrow> 0 < m \<Longrightarrow> length (digits_of n) \<le> m"
proof (induction n arbitrary: m rule: digits_of.induct)
  case (1 n)
  show ?case
  proof (cases "n < 10")
    case True
    with "1.prems" show ?thesis by (subst digits_of.simps) simp
  next
    case False
    obtain k where m: "m = Suc k" using "1.prems"(2) by (cases m) auto
    have k: "0 < k"
    proof (rule ccontr)
      assume "\<not> 0 < k"
      with m "1.prems"(1) False show False by simp
    qed
    have "n div 10 < 10 ^ k"
      using "1.prems"(1) m by (simp add: less_mult_imp_div_less mult.commute)
    with "1.IH"[OF False _ k] have "length (digits_of (n div 10)) \<le> k" by simp
    with False m show ?thesis by (subst digits_of.simps) simp
  qed
qed

lemma py_int_over_limit:
  "list_all is_decimal_char s \<Longrightarrow> max_str_digits < length s \<Longrightarrow> \<exists>e. py_int s = Inl e"
  by (induction s) (auto simp: py_int_def Let_def)

lemma py_int_superscript:
  "c \<in> set [CHR 0xB2, CHR 0xB3, CHR 0xB9] \<Longrightarrow> c \<in> set s \<Longrightarrow> \<exists>e. py_int s = Inl e"
proof -
  assume c: "c \<in> set [CHR 0xB2, CHR 0xB3, CHR 0xB9]" and s: "c \<in> set s"
  from c have "\<not> is_decimal_char c" by (auto simp: is_decimal_char_def)
  with s have "\<not> list_all is_decimal_char s" by (auto simp: list_all_iff)
  then have "py_int s \<noteq> Inr n" for n by (auto dest: py_int_result(2))
  then show ?thesis by (cases "py_int s") auto
qed

lemma py_int_formattable: "py_int s = Inr n \<Longrightarrow> formattable (PInt n)"
proof -
  assume a: "py_int s = Inr n"
  note r = py_int_result[OF a]
  from r(1) have ne: "0 < length s" by (simp add: isdigit_def)
  from int_of_digits_bound[OF r(2)] r(4)
  have n: "0 \<le> n" "n < 10 ^ length s" by simp_all
  then have "nat \<bar>n\<bar> < 10 ^ length s"
    by (simp add: nat_less_iff)
  from digits_of_length[OF this ne] r(3) show ?thesis by simp
qed

section \<open>Facts about the schema table\<close>

lemma all_dicts_nodes_set:
  "all_dicts ns \<Longrightarrow> all_dicts (nodes_set ns k (PDict d))"
  by (induction ns) (auto simp: all_dicts_def)

lemma extract_loop_dicts:
  "extract_loop defs ns = Inr ns' \<Longrightarrow> all_dicts ns \<Longrightarrow> all_dicts ns'"
proof (induction defs arbitrary: ns)
  case Nil
  then show ?case by simp
next
  case (Cons a defs)
  obtain key val where a: "a = (key, val)" by (cases a)
  show ?case
  proof (cases val)
    case (PDict d)
    show ?thesis
    proof (cases "map_of d ''node_type''")
      case None
      with Cons a PDict show ?thesis by simp
    next
      case (Some t)
      with Cons.prems a PDict have h: "py_hashable t"
        and e: "extract_loop defs (nodes_set (nodes_set ns t val) (PStr (lower key)) val) = Inr ns'"
        by (auto split: if_splits)
      have "all_dicts (nodes_set (nodes_set ns t val) (PStr (lower key)) val)"
        using Cons.prems(2) PDict by (simp add: all_dicts_nodes_set)
      with e show ?thesis by (rule Cons.IH)
    qed
  qed (use Cons a in auto)
qed

lemma all_dicts_lookup:
  "all_dicts ns \<Longrightarrow> nodes_lookup ns k = Some x \<Longrightarrow> \<exists>d. x = PDict d"
  by (induction ns) (auto simp: all_dicts_def split: if_splits pyval.splits)

lemma new_generator_dicts:
  "new_generator syn tree = Inr g \<Longrightarrow> all_dicts (gen_syntax_nodes g)"
  by (auto simp: new_generator_def extract_syntax_nodes_def all_dicts_def
        split: sum.splits pyval.splits dest!: extract_loop_dicts)

lemma py_eq_refl: "py_hashable k \<Longrightarrow> py_eq k k"
  by (cases k) auto

lemma nodes_has_set_same: "py_hashable k \<Longrightarrow> nodes_has (nodes_set ns k x) k"
  by (induction ns) (auto simp: nodes_has_def py_eq_refl)

lemma nodes_has_set_other: "nodes_has ns k \<Longrightarrow> nodes_has (nodes_set ns k' x) k"
  by (induction ns) (auto simp: nodes_has_def)

lemma extract_loop_keeps:
  "extract_loop defs ns = Inr ns' \<Longrightarrow> nodes_has ns k \<Longrightarrow> nodes_has ns' k"
proof (induction defs arbitrary: ns)
  case Nil
  then show ?case by simp
next
  case (Cons a defs)
  obtain key val where a: "a = (key, val)" by (cases a)
  show ?case
  proof (cases val)
    case (PDict d)
    show ?thesis
    proof (cases "map_of d ''node_type''")
      case None
      with Cons a PDict show ?thesis by simp
    next
      case (Some t)
      with Cons.prems a PDict have
        e: "extract_loop defs (nodes_set (nodes_set ns t val) (PStr (lower key)) val) = Inr ns'"
        by (auto split: if_splits)
      show ?thesis
        by (rule Cons.IH[OF e]) (simp add: nodes_has_set_other Cons.prems(2))
    qed
  qed (use Cons a in auto)
qed

lemma extract_loop_registers:
  "extract_loop defs ns = Inr ns' \<Longrightarrow> (key, PDict d) \<in> set defs \<Longrightarrow>
     map_of d ''node_type'' = Some t \<Longrightarrow>
     py_hashable t \<and> nodes_has ns' t \<and> nodes_has ns' (PStr (lower key))"
proof (induction defs arbitrary: ns)
  case Nil
  then show ?case by simp
next
  case (Cons a defs)
  show ?case
  proof (cases "a = (key, PDict d)")
    case True
    with Cons.prems have h: "py_hashable t"
      and e: "extract_loop defs (nodes_set (nodes_set ns t (PDict d)) (PStr (lower key)) (PDict d)) = Inr ns'"
      by (auto split: if_splits)
    have "nodes_has (nodes_set (nodes_set ns t (PDict d)) (PStr (lower key)) (PDict d)) t"
      using h by (simp add: nodes_has_set_other nodes_has_set_same)
    moreover have "nodes_has (nodes_set (nodes_set ns t (PDict d)) (PStr (lower key)) (PDict d)) (PStr (lower key))"
      by (simp add: nodes_has_set_same)
    ultimately show ?thesis using e h by (blast intro: extract_loop_keeps)
  next
    case False
    with Cons.prems have mem: "(key, PDict d) \<in> set defs" by simp
    obtain key' val where a: "a = (key', val)" by (cases a)
    from Cons.prems(1) a obtain ns1 where "extract_loop defs ns1 = Inr ns'"
      by (cases val) (auto split: option.splits if_splits)
    then show ?thesis using mem Cons.prems(3) by (rule Cons.IH)
  qed
qed

lemma extract_loop_skips:
  "extract_loop defs ns = extract_loop (filter is_definition defs) ns"
proof (induction defs arbitrary: ns)
  case Nil
  then show ?case by simp
next
  case (Cons a defs)
  obtain key val where a: "a = (key, val)" by (cases a)
  show ?case
    using Cons.IH
    by (cases val) (auto simp: a is_definition_def has_key_def split: option.splits)
qed

section \<open>Facts about styles\<close>

lemma determine_style_str: "determine_style (PStr t) = Inr (intrinsic_style t)"
  by (simp add: determine_style_def intrinsic_style_def in_str_set_def)

lemma display_map_style:
  "map_of display_map t = Some info \<Longrightarrow>
     dict_get_default info ''style'' (PStr ''unknown'') = PStr (intrinsic_style t)"
  by (auto simp: display_map_def display_info_def dict_get_default_def intrinsic_style_def
        style_block_types_def style_inline_types_def split: if_splits)

lemma display_map_none:
  "map_of display_map t = None \<Longrightarrow> intrinsic_style t = ''unknown''"
  by (auto simp: display_map_def intrinsic_style_def
        style_block_types_def style_inline_types_def split: if_splits)

section \<open>The properties of the specification\<close>

text \<open>
  C1 (coverage completeness). Take a schema entry \<open>name\<close> that declares a \<^verbatim>\<open>node_type\<close>
  \<open>t\<close> and no \<^verbatim>\<open>depth\<close>, standing anywhere in the schema, between the entries \<open>before\<close>
  and \<open>after\<close>. When the structural walk and the coverage checks of the other entries
  return, \<^verbatim>\<open>validate\<close> returns, and its diagnostics are those of the walk, then those
  of the entries before, then those of this entry, then those of the entries after. This
  entry contributes no diagnostic when the flat pre-order list of AST nodes holds a node
  whose type equals \<open>t\<close>, and otherwise exactly the one diagnostic "Syntax defines NAME
  (node_type: T) but AST has no example of this node type". The type \<open>t\<close> is one that can
  be formatted into the diagnostic, as every text is.
\<close>

theorem coverage_completeness:
  assumes "get_syntax_definitions (syntax_data v) = PDict (before @ (name, PDict d) # after)"
    and "map_of d ''node_type'' = Some t"
    and "\<not> has_key d ''depth''"
    and "formattable t"
    and "structural_walk v = Inr walk"
    and "coverage_loop (collect_ast_nodes v) before [] = Inr cb"
    and "coverage_loop (collect_ast_nodes v) after [] = Inr ca"
  shows "validate v =
           Inr (walk @ cb @
                (if list_ex (\<lambda>ast_node. py_eq (dict_get ast_node ''type'') t)
                      (collect_ast_nodes v)
                 then [] else [no_example_msg name t]) @ ca)"
proof -
  let ?ns = "collect_ast_nodes v"
  let ?entry = "if list_ex (\<lambda>ast_node. py_eq (dict_get ast_node ''type'') t) ?ns
                then [] else [no_example_msg name t]"
  have msg: "fstring (no_example_msg name t) = Inr (no_example_msg name t)"
    using assms(4) by (simp add: fstring_formattable no_example_msg_def)
  have entry: "coverage_entry ?ns name (PDict d) es = Inr (es @ ?entry)" for es
    using assms(2,3) msg by (simp add: coverage_entry_def Let_def)
  have b: "coverage_loop ?ns before walk = Inr (walk @ cb)"
    using assms(6) by (simp add: coverage_loop_append[of ?ns before walk])
  have a: "coverage_loop ?ns after (walk @ cb @ ?entry) = Inr ((walk @ cb @ ?entry) @ ca)"
    using assms(7) by (simp add: coverage_loop_append[of ?ns after "walk @ cb @ ?entry"])
  have "validate v = coverage_loop ?ns (before @ (name, PDict d) # after) walk"
    using assms(1,5) by (simp add: validate_two_passes validate_syntax_coverage_def)
  also have "\<dots> = coverage_loop ?ns after (walk @ cb @ ?entry)"
    using b entry[of "walk @ cb"] by (simp add: coverage_loop_split)
  finally show ?thesis using a by simp
qed

theorem coverage_completeness_witness:
  "parse_ron_content cov_syntax_text = Inr cov_syntax
   \<and> parse_ron_content cov_ast_text = Inr cov_ast
   \<and> new_validator cov_syntax cov_ast = Inr cov_validator
   \<and> list_ex (\<lambda>ast_node. py_eq (dict_get ast_node ''type'') (PStr ''paragraph''))
        (collect_ast_nodes cov_validator)
   \<and> \<not> list_ex (\<lambda>ast_node. py_eq (dict_get ast_node ''type'') (PStr ''blockquote''))
        (collect_ast_nodes cov_validator)
   \<and> validate cov_validator = Inr [no_example_msg ''Quote'' (PStr ''blockquote'')]
   \<and> render (no_example_msg ''Quote'' (PStr ''blockquote'')) =
        Some ''Syntax defines Quote (node_type: blockquote) but AST has no example of this node type''"
proof -
  have p1: "parse_ron_content cov_syntax_text = Inr cov_syntax"
    by code_simp
  have p2: "parse_ron_content cov_ast_text = Inr cov_ast"
    by code_simp
  have p3: "new_validator cov_syntax cov_ast = Inr cov_validator"
    by code_simp
  have h1: "get_syntax_definitions (syntax_data cov_validator) =
              PDict ([(''Para'', PDict [(''node_type'', PStr ''paragraph'')])] @
                     (''Quote'', PDict [(''node_type'', PStr ''blockquote'')]) # [])"
    by code_simp
  have h2: "map_of [(''node_type'', PStr ''blockquote'')] ''node_type'' = Some (PStr ''blockquote'')"
    by simp
  have h3: "\<not> has_key [(''node_type'', PStr ''blockquote'')] ''depth''"
    by (simp add: has_key_def)
  have h4: "formattable (PStr ''blockquote'')"
    by simp
  have h5: "structural_walk cov_validator = Inr []"
    by code_simp
  have h6: "coverage_loop (collect_ast_nodes cov_validator)
              [(''Para'', PDict [(''node_type'', PStr ''paragraph'')])] [] = Inr []"
    by code_simp
  have h7: "coverage_loop (collect_ast_nodes cov_validator) [] [] = Inr []"
    by simp
  have f1: "list_ex (\<lambda>ast_node. py_eq (dict_get ast_node ''type'') (PStr ''paragraph''))
        (collect_ast_nodes cov_validator)"
    by code_simp
  have f2: "\<not> list_ex (\<lambda>ast_node. py_eq (dict_get ast_node ''type'') (PStr ''blockquote''))
        (collect_ast_nodes cov_validator)"
    by code_simp
  have r: "render (no_example_msg ''Quote'' (PStr ''blockquote'')) =
        Some ''Syntax defines Quote (node_type: blockquote) but AST has no example of this node type''"
    by code_simp
  from coverage_completeness[OF h1 h2 h3 h4 h5 h6 h7] p1 p2 p3 f1 f2 r
  show ?thesis by simp
qed

text \<open>
  C2 (an unparsable text fails with a syntax error), as the code has it. The claim fails:
  the parser has no failure to signal. An unterminated string, an unterminated bracket
  and an unterminated optional wrapper are each read up to the end of the text, and the
  pairs recognised are returned.
\<close>

theorem parse_unterminated_counterexample:
  \<open>parse_ron_content ''RootNode { title: "abc }'' = Inr [(''title'', PStr ''abc'')]
   \<and> parse_ron_content ''RootNode { children: [ "a", "b" }'' =
       Inr [(''children'', PList [PStr ''a'', PStr ''b''])]
   \<and> parse_ron_content ''RootNode { lang: Some("rust" }'' = Inr [(''lang'', PStr ''rust'')]\<close>
  by code_simp

text \<open>
  C2, amended: \<^verbatim>\<open>parse\<close> never fails. For every text it returns a dictionary; the
  exceptions that can be raised inside, by \<^verbatim>\<open>int\<close> and \<^verbatim>\<open>float\<close> on a malformed
  number, are caught.
\<close>

theorem parse_never_fails:
  "\<exists>result. parse_ron_content text = Inr result"
  by (auto simp: parse_ron_content_def Let_def split: sum.splits prod.splits)

text \<open>
  C3 (validate never fails). The code at the failing input: a syntax document whose
  heading entry has the depth \<^verbatim>\<open>\<twosuperior>\<close>, the superscript digit two. The syntax parser
  keeps the depth as that text; the coverage pass converts a depth with \<^verbatim>\<open>int\<close> when
  \<^verbatim>\<open>isdigit\<close> holds of it, which it does of the superscript digit, and \<^verbatim>\<open>int\<close>
  raises \<^verbatim>\<open>ValueError\<close>. Nothing catches it: \<^verbatim>\<open>validate\<close> raises instead of
  returning diagnostics.
\<close>

theorem validate_raises_on_digit_depth:
  "parse_ron_content superscript_syntax_text = Inr superscript_syntax
   \<and> parse_ron_content e2e_ast_text = Inr e2e_ast
   \<and> new_validator superscript_syntax e2e_ast = Inr superscript_validator
   \<and> isdigit [CHR 0xB2]
   \<and> py_int [CHR 0xB2] =
       Inl (ValueError (''invalid literal for int() with base 10: '' @ quoted [CHR 0xB2]))
   \<and> validate superscript_validator =
       Inl (ValueErr (ValueError
         (''invalid literal for int() with base 10: '' @ quoted [CHR 0xB2])))"
  by code_simp

text \<open>
  C4 (end-to-end scenario). The schema declares Heading1 with \<^verbatim>\<open>node_type\<close> heading,
  depth 1 (the text "1", as the syntax parser stores it) and markdown syntax "#"; the
  AST is the single node of type heading, depth 1, with no children. The hint the
  generator returns is not the four-field hint of the claim: it also carries the node's
  depth under the key \<^verbatim>\<open>attr_depth\<close>.
\<close>

theorem end_to_end_counterexample:
  "generate_simple_hints e2e_generator (PDict e2e_ast) = Inr e2e_hint
   \<and> \<not> py_eq e2e_hint e2e_claimed_hint"
  by code_simp

text \<open>
  C4, amended: validation returns no diagnostic, and generation returns, under the key
  \<^verbatim>\<open>display_hints\<close>, the hint with type heading, style block, decoration "#", markdown
  syntax "#" and \<^verbatim>\<open>attr_depth\<close> 1, without a key \<^verbatim>\<open>children\<close>.
\<close>

theorem end_to_end:
  "parse_ron_content e2e_syntax_text = Inr e2e_syntax
   \<and> parse_ron_content e2e_ast_text = Inr e2e_ast
   \<and> new_validator e2e_syntax e2e_ast = Inr e2e_validator
   \<and> validate e2e_validator = Inr []
   \<and> new_generator e2e_syntax e2e_ast = Inr e2e_generator
   \<and> generate e2e_generator = Some (PDict [(''display_hints'', e2e_hint)])
   \<and> e2e_hint =
       PDict [(''type'', PStr ''heading''), (''style'', PStr ''block''),
              (''decoration'', PStr ''#''), (''markdown_syntax'', PStr ''#''),
              (''attr_depth'', PInt 1)]"
  by code_simp

text \<open>
  C5 (both document shapes get the same structural checks). The code at the failing
  input: the document a single root node is parsed to is that node itself; the walk of
  \<^verbatim>\<open>validate\<close> looks at the values of the top-level dictionary only, so a heading
  without depth gets no structural check, while the same node under a wrapper key is
  reported.
\<close>

theorem single_root_node_unchecked:
  "parse_ron_content bare_syntax_text = Inr bare_syntax
   \<and> parse_ron_content bare_heading_text = Inr bare_heading
   \<and> new_validator bare_syntax bare_heading = Inr bare_validator
   \<and> validate bare_validator = Inr []
   \<and> new_validator bare_syntax [(''RootNode'', PDict bare_heading)] = Inr wrapped_validator
   \<and> map (map render) (case validate wrapped_validator of Inr errs \<Rightarrow> [errs] | Inl e \<Rightarrow> []) =
       [[Some ''Heading node missing required 'depth' attribute'']]"
  by code_simp

text \<open>
  C6 (heading-depth discrimination). A schema of two heading entries whose depths are
  the texts \<open>s1\<close> and \<open>s2\<close>, each a decimal numeral that \<^verbatim>\<open>int\<close> converts (to \<open>k1\<close> and
  \<open>k2\<close>), and an AST whose flat node list has a heading of depth \<open>k1\<close> and none of depth
  \<open>k2\<close>. When the structural walk returns, \<^verbatim>\<open>validate\<close> returns its diagnostics and
  exactly one coverage diagnostic, which names the second entry and its depth. The schema
  depth is compared as the integer it spells; the depth of the AST node is compared as
  it is.
\<close>

theorem heading_depth_discrimination:
  assumes "get_syntax_definitions (syntax_data v) = PDict [(n1, PDict d1), (n2, PDict d2)]"
    and "map_of d1 ''node_type'' = Some (PStr ''heading'')"
    and "map_of d2 ''node_type'' = Some (PStr ''heading'')"
    and "map_of d1 ''depth'' = Some (PStr s1)" and "py_int s1 = Inr k1"
    and "map_of d2 ''depth'' = Some (PStr s2)" and "py_int s2 = Inr k2"
    and "list_ex (\<lambda>n. py_eq (dict_get n ''type'') (PStr ''heading'') \<and>
            py_eq (dict_get n ''depth'') (PInt k1)) (collect_ast_nodes v)"
    and "\<not> list_ex (\<lambda>n. py_eq (dict_get n ''type'') (PStr ''heading'') \<and>
            py_eq (dict_get n ''depth'') (PInt k2)) (collect_ast_nodes v)"
    and "structural_walk v = Inr walk"
  shows "validate v = Inr (walk @ [no_heading_msg n2 (PInt k2)])"
proof -
  have c1: "coerce_depth (PStr s1) = Inr (PInt k1)"
    using assms(5) py_int_result(1)[OF assms(5)] by (simp add: coerce_depth_def)
  have c2: "coerce_depth (PStr s2) = Inr (PInt k2)"
    using assms(7) py_int_result(1)[OF assms(7)] by (simp add: coerce_depth_def)
  have msg: "fstring (no_heading_msg n2 (PInt k2)) = Inr (no_heading_msg n2 (PInt k2))"
    using py_int_formattable[OF assms(7)]
    by (simp add: fstring_formattable no_heading_msg_def)
  have e1: "coverage_entry (collect_ast_nodes v) n1 (PDict d1) walk = Inr walk"
    using assms(2,4,8) c1
    by (simp add: coverage_entry_def Let_def has_key_def dict_get_def)
  have e2: "coverage_entry (collect_ast_nodes v) n2 (PDict d2) walk =
              Inr (walk @ [no_heading_msg n2 (PInt k2)])"
    using assms(3,6,9) c2 msg
    by (simp add: coverage_entry_def Let_def has_key_def dict_get_def)
  show ?thesis
    using assms(1,10) e1 e2
    by (simp add: validate_two_passes validate_syntax_coverage_def)
qed

theorem heading_depth_discrimination_witness:
  "parse_ron_content depth_syntax_text = Inr depth_syntax
   \<and> parse_ron_content depth_ast_text = Inr depth_ast
   \<and> new_validator depth_syntax depth_ast = Inr depth_validator
   \<and> py_int ''1'' = Inr 1 \<and> py_int ''2'' = Inr 2
   \<and> validate depth_validator = Inr [no_heading_msg ''Heading2'' (PInt 2)]
   \<and> render (no_heading_msg ''Heading2'' (PInt 2)) =
     Some ''Syntax defines Heading2 (heading depth 2) but AST has no example heading with depth 2''"
proof -
  have p1: "parse_ron_content depth_syntax_text = Inr depth_syntax"
    by code_simp
  have p2: "parse_ron_content depth_ast_text = Inr depth_ast"
    by code_simp
  have p3: "new_validator depth_syntax depth_ast = Inr depth_validator"
    by code_simp
  have h1: "get_syntax_definitions (syntax_data depth_validator) =
              PDict [(''Heading1'', PDict (depth_definition ''1'')),
                     (''Heading2'', PDict (depth_definition ''2''))]"
    by code_simp
  have h2: "map_of (depth_definition ''1'') ''node_type'' = Some (PStr ''heading'')"
    by code_simp
  have h3: "map_of (depth_definition ''2'') ''node_type'' = Some (PStr ''heading'')"
    by code_simp
  have h4: "map_of (depth_definition ''1'') ''depth'' = Some (PStr ''1'')"
    by code_simp
  have h5: "py_int ''1'' = Inr 1"
    by code_simp
  have h6: "map_of (depth_definition ''2'') ''depth'' = Some (PStr ''2'')"
    by code_simp
  have h7: "py_int ''2'' = Inr 2"
    by code_simp
  have h8: "list_ex (\<lambda>n. py_eq (dict_get n ''type'') (PStr ''heading'') \<and>
            py_eq (dict_get n ''depth'') (PInt 1)) (collect_ast_nodes depth_validator)"
    by code_simp
  have h9: "\<not> list_ex (\<lambda>n. py_eq (dict_get n ''type'') (PStr ''heading'') \<and>
            py_eq (dict_get n ''depth'') (PInt 2)) (collect_ast_nodes depth_validator)"
    by code_simp
  have h10: "structural_walk depth_validator = Inr []"
    by code_simp
  have r: "render (no_heading_msg ''Heading2'' (PInt 2)) =
     Some ''Syntax defines Heading2 (heading depth 2) but AST has no example heading with depth 2''"
    by code_simp
  from heading_depth_discrimination[OF h1 h2 h3 h4 h5 h6 h7 h8 h9 h10] p1 p2 p3 h5 h7 r
  show ?thesis by simp
qed

text \<open>
  C7 (schema aliases), as the code has it. The claim fails: the \<^verbatim>\<open>node_type\<close> is
  registered as written, not case-folded, so a case variant of it is not found. With a
  schema entry MyNode of \<^verbatim>\<open>node_type\<close> "Custom", the type "custom" is unknown.
\<close>

theorem schema_aliases_counterexample:
  "new_validator custom_syntax (ast_data custom_validator) = Inr custom_validator
   \<and> lower ''custom'' = lower ''Custom''
   \<and> \<not> nodes_has (syntax_nodes custom_validator) (PStr ''custom'')
   \<and> is_valid_node_type custom_validator (PStr ''custom'') = Inr False
   \<and> validate custom_validator =
       Inr [unknown_type_msg (PStr ''custom''), no_example_msg ''MyNode'' (PStr ''Custom'')]"
  by code_simp

text \<open>
  C7, amended: for every entry of the syntax document whose value is a dictionary with a
  \<^verbatim>\<open>node_type\<close>, extraction registers the definition under the \<^verbatim>\<open>node_type\<close> as
  written and under the declaration key in lower case; the validator resolves the
  \<^verbatim>\<open>node_type\<close> as written and every case variant of the declaration key; entries
  that are not such dictionaries are skipped, and extraction gives what it gives on the
  definitions alone.
\<close>

theorem schema_aliases:
  assumes "new_validator syn tree = Inr v"
    and "get_syntax_definitions syn = PDict defs"
    and "(key, PDict d) \<in> set defs"
    and "map_of d ''node_type'' = Some t"
    and "lower name = lower key"
  shows "nodes_has (syntax_nodes v) t \<and> nodes_has (syntax_nodes v) (PStr (lower key))
       \<and> is_valid_node_type v t = Inr True
       \<and> is_valid_node_type v (PStr name) = Inr True
       \<and> extract_syntax_nodes syn = extract_loop (filter is_definition defs) []"
proof -
  from assms(1,2) have e: "extract_loop defs [] = Inr (syntax_nodes v)"
    by (auto simp: new_validator_def extract_syntax_nodes_def split: sum.splits)
  have h: "py_hashable t"
    and reg: "nodes_has (syntax_nodes v) t" "nodes_has (syntax_nodes v) (PStr (lower key))"
    using extract_loop_registers[OF e assms(3,4)] by simp_all
  have v1: "is_valid_node_type v t = Inr True"
    using reg(1) h
    by (cases t) (auto simp: is_valid_node_type_def in_str_set_def split: bool.splits)
  have v2: "is_valid_node_type v (PStr name) = Inr True"
    using reg(2) assms(5)
    by (auto simp: is_valid_node_type_def in_str_set_def split: bool.splits)
  show ?thesis using reg v1 v2 assms(2)
    by (simp add: extract_syntax_nodes_def extract_loop_skips[of defs])
qed

theorem schema_aliases_witness:
  "new_validator custom_syntax (ast_data custom_validator) = Inr custom_validator
   \<and> get_syntax_definitions custom_syntax = PDict custom_syntax
   \<and> (''MyNode'', PDict [(''node_type'', PStr ''Custom'')]) \<in> set custom_syntax
   \<and> lower ''MYNODE'' = lower ''MyNode''
   \<and> nodes_has (syntax_nodes custom_validator) (PStr ''Custom'')
   \<and> nodes_has (syntax_nodes custom_validator) (PStr ''mynode'')
   \<and> is_valid_node_type custom_validator (PStr ''Custom'') = Inr True
   \<and> is_valid_node_type custom_validator (PStr ''MYNODE'') = Inr True"
proof -
  have h1: "new_validator custom_syntax (ast_data custom_validator) = Inr custom_validator"
    by code_simp
  have h2: "get_syntax_definitions custom_syntax = PDict custom_syntax"
    by code_simp
  have h3: "(''MyNode'', PDict [(''node_type'', PStr ''Custom'')]) \<in> set custom_syntax"
    by (simp add: custom_syntax_def)
  have h4: "map_of [(''node_type'', PStr ''Custom'')] ''node_type'' = Some (PStr ''Custom'')"
    by simp
  have h5: "lower ''MYNODE'' = lower ''MyNode''"
    by code_simp
  have h6: "lower ''MyNode'' = ''mynode''"
    by code_simp
  from schema_aliases[OF h1 h2 h3 h4 h5] h1 h2 h3 h5 h6 show ?thesis by simp
qed

text \<open>
  C8 (frontmatter position). The code at the failing input: a schema that registers the
  type frontmatter, and the document of a root whose second child is a frontmatter node.
  The document is parsed to the root node itself, and the walk of \<^verbatim>\<open>validate\<close> looks at
  the values of the top-level dictionary only: the children are never reached at their
  positions, and no diagnostic is returned. The position rule is there: the same tree
  under a wrapper key yields "Frontmatter node must be first child of Document" when
  the frontmatter node is the second child, and nothing when it is the first.
\<close>

theorem frontmatter_rule_unreached:
  "parse_ron_content fm_syntax_text = Inr fm_syntax
   \<and> parse_ron_content fm_second_text = Inr fm_second
   \<and> parse_ron_content fm_first_text = Inr fm_first
   \<and> new_validator fm_syntax fm_second = Inr (fm_validator fm_second)
   \<and> validate (fm_validator fm_second) = Inr []
   \<and> validate (fm_validator fm_first) = Inr []
   \<and> new_validator fm_syntax [(''RootNode'', PDict fm_second)] =
       Inr (fm_validator [(''RootNode'', PDict fm_second)])
   \<and> validate (fm_validator [(''RootNode'', PDict fm_second)]) = Inr [frontmatter_msg]
   \<and> validate (fm_validator [(''RootNode'', PDict fm_first)]) = Inr []
   \<and> render frontmatter_msg = Some ''Frontmatter node must be first child of Document''"
  by code_simp

text \<open>
  C9 (required attributes). The code at the failing input: the document of a root with a
  heading without depth, a link without url and an image without url and alt. The
  document is parsed to the root node itself, the walk of \<^verbatim>\<open>validate\<close> looks at the
  values of the top-level dictionary only, and none of the four diagnostics is returned.
  The attribute rules are there: the same tree under a wrapper key yields the four
  diagnostics, each node's after its children, one for each missing attribute.
\<close>

theorem required_attributes_unreached:
  "parse_ron_content bare_syntax_text = Inr bare_syntax
   \<and> parse_ron_content attr_ast_text = Inr attr_ast
   \<and> new_validator bare_syntax attr_ast = Inr (attr_validator attr_ast)
   \<and> validate (attr_validator attr_ast) = Inr []
   \<and> new_validator bare_syntax [(''RootNode'', PDict attr_ast)] =
       Inr (attr_validator [(''RootNode'', PDict attr_ast)])
   \<and> map (map render)
       (case validate (attr_validator [(''RootNode'', PDict attr_ast)]) of
          Inr errs \<Rightarrow> [errs] | Inl e \<Rightarrow> []) =
       [[Some ''Heading node missing required 'depth' attribute'',
         Some ''Link node missing required 'url' attribute'',
         Some ''Image node missing required 'url' attribute'',
         Some ''Image node missing required 'alt' attribute'']]"
  by code_simp

text \<open>
  C10 (style classification). Whatever the schema registers, the style that
  \<^verbatim>\<open>_get_display_info\<close> resolves for a type name is its intrinsic style: container
  for root, block for the block types, inline for the inline types, unknown otherwise.
  In particular it is the same for a built-in type name with and without a schema entry.
\<close>

theorem style_classification:
  assumes "new_generator syn tree = Inr g"
  shows "\<exists>info. get_display_info g (PStr t) = Inr info \<and>
           dict_get_default info ''style'' (PStr ''unknown'') = PStr (intrinsic_style t)"
proof (cases "nodes_lookup (gen_syntax_nodes g) (PStr t)")
  case None
  then show ?thesis
    by (auto simp: get_display_info_def display_info_def dict_get_default_def
          dest: display_map_style display_map_none split: option.splits)
next
  case (Some x)
  with new_generator_dicts[OF assms] obtain d where "x = PDict d"
    by (blast dest: all_dicts_lookup)
  with Some show ?thesis
    by (simp add: get_display_info_def determine_style_str dict_get_default_def)
qed

theorem style_classification_witness:
  "new_generator e2e_syntax e2e_ast = Inr e2e_generator
   \<and> (\<exists>info. get_display_info e2e_generator (PStr ''heading'') = Inr info \<and>
         dict_get_default info ''style'' (PStr ''unknown'') = PStr ''block'')
   \<and> nodes_has (gen_syntax_nodes e2e_generator) (PStr ''heading'')
   \<and> \<not> nodes_has (gen_syntax_nodes e2e_generator) (PStr ''text'')
   \<and> intrinsic_style ''text'' = ''inline''"
proof -
  have h1: "new_generator e2e_syntax e2e_ast = Inr e2e_generator"
    by code_simp
  have h2: "intrinsic_style ''heading'' = ''block''"
    by code_simp
  have h3: "nodes_has (gen_syntax_nodes e2e_generator) (PStr ''heading'')"
    by code_simp
  have h4: "\<not> nodes_has (gen_syntax_nodes e2e_generator) (PStr ''text'')"
    by code_simp
  have h5: "intrinsic_style ''text'' = ''inline''"
    by code_simp
  from style_classification[OF h1, of "''heading''"] h1 h2 h3 h4 h5 show ?thesis by simp
qed

end
